theory Spec2Isabelle
  imports Complex_Main "HOL-Library.Log_Nat"
begin

section \<open>Python values and failures\<close>

text \<open>
  The exceptions that the modelled methods of \<^verbatim>\<open>SpectTools.py\<close> can raise.  A
  \<^verbatim>\<open>ValueError\<close> carries its message, because \<^verbatim>\<open>__Compose\<close> formats the offending
  index into it.
\<close>

datatype error =
    ValueError string
  | TypeError
  | AssertionError
  | AttributeError
  | KeyError
  | IndexError
  | UnboundLocalError
  | FileNotFoundError
  | NotImplementedError
  | ParserError
  | MergeError

text \<open>
  Arguments whose Python type the source checks with \<^verbatim>\<open>isinstance\<close> are values of
  \<open>pyval\<close>; \<open>PExp r\<close> is a reference to the \<^verbatim>\<open>SpectExp\<close> object at address \<open>r\<close>.
\<close>

datatype pyval =
    PNone
  | PBool bool
  | PInt int
  | PStr string
  | PList "pyval list"
  | PExp nat

fun is_int :: "pyval \<Rightarrow> bool" where
  "is_int (PInt i) = True"
| "is_int (PBool b) = True"
| "is_int v = False"

fun is_SpectExp :: "pyval \<Rightarrow> bool" where
  "is_SpectExp (PExp r) = True"
| "is_SpectExp v = False"

fun exp_ref :: "pyval \<Rightarrow> nat" where
  "exp_ref (PExp r) = r"
| "exp_ref v = 0"

text \<open>\<^verbatim>\<open>str(n)\<close> for a non-negative integer, as \<^verbatim>\<open>"{}".format(n)\<close> prints it.\<close>

definition digit :: "nat \<Rightarrow> char" where
  "digit d = ''0123456789'' ! d"

function str_nat :: "nat \<Rightarrow> string" where
  "str_nat n = (if n < 10 then [digit n] else str_nat (n div 10) @ [digit (n mod 10)])"
  by pat_completeness auto
termination
  by (relation "measure id") auto

declare str_nat.simps [simp del]

section \<open>Floating-point numbers\<close>

text \<open>
  The numbers in a table are \<^verbatim>\<open>float64\<close>, and pandas computes with them in IEEE 754
  binary64 arithmetic: every operation gives the exact result rounded to the nearest
  number with a significand of 53 bits, a tie going to the even significand; below
  \<open>2 powi (- 1022)\<close> the numbers are the multiples of \<open>2 powi (- 1074)\<close>.  \<open>bexp x\<close> is the binary exponent of
  \<open>x \<noteq> 0\<close>, the \<open>k\<close> with \<open>2 powi k \<le> \<bar>x\<bar> < 2 powi (k + 1)\<close>, and \<open>round64\<close> is the rounding.

  A float64 is a real number here, so the two infinities and the sign of zero are not
  modelled: where the code gets an infinity (a result of magnitude \<open>2 ^ 1024\<close> or more),
  \<open>round64\<close> gives a number.  The statements about sums keep to tables whose values are
  small enough for this not to happen (\<open>bounded_table\<close> below).
\<close>

definition bexp :: "real \<Rightarrow> int" where
  "bexp x = (if 1 \<le> \<bar>x\<bar> then bitlen \<lfloor>\<bar>x\<bar>\<rfloor> - 1 else - bitlen (\<lceil>1 / \<bar>x\<bar>\<rceil> - 1))"

definition round_half_even :: "real \<Rightarrow> int" where
  "round_half_even t =
     (let f = \<lfloor>t\<rfloor>; d = t - of_int f
      in if d < 1 / 2 \<or> (d = 1 / 2 \<and> even f) then f else f + 1)"

definition round64 :: "real \<Rightarrow> real" where
  "round64 x =
     (if x = 0 then 0
      else let e = max (bexp x - 52) (- 1074)
           in of_int (round_half_even (x / 2 powi e)) * 2 powi e)"

definition is_f64 :: "real \<Rightarrow> bool" where
  "is_f64 x = (round64 x = x)"

definition fadd :: "real \<Rightarrow> real \<Rightarrow> real" where
  "fadd x y = round64 (x + y)"

definition fsub :: "real \<Rightarrow> real \<Rightarrow> real" where
  "fsub x y = round64 (x - y)"

definition fmul :: "real \<Rightarrow> real \<Rightarrow> real" where
  "fmul x y = round64 (x * y)"

definition fdiv :: "real \<Rightarrow> real \<Rightarrow> real" where
  "fdiv x y = round64 (x / y)"

definition fsqrt :: "real \<Rightarrow> real" where
  "fsqrt x = round64 (sqrt x)"

text \<open>
  The sum of the values of a row, taken from left to right and rounded after every
  addition.
\<close>

fun fsum :: "real list \<Rightarrow> real" where
  "fsum [] = 0"
| "fsum (x # xs) = fold (\<lambda>y s. fadd s y) xs x"

section \<open>Data frames\<close>

text \<open>
  A \<^verbatim>\<open>pandas.DataFrame\<close> of \<^verbatim>\<open>float64\<close> columns: the column labels in order and the
  rows in order, each row holding one cell per column.  A cell is a number or NaN
  (\<open>None\<close>).  The row index is left out: every frame below is read, merged or copied
  with the default index, and the column assignments of \<^verbatim>\<open>genStats\<close> are between frames
  of the same index.
\<close>

type_synonym cell = "real option"

record DataFrame =
  df_columns :: "string list"
  df_rows :: "cell list list"


definition key_name :: string where
  "key_name = ''Wavelength''"

fun index_of :: "'a \<Rightarrow> 'a list \<Rightarrow> nat" where
  "index_of a [] = 0"
| "index_of a (x # xs) = (if x = a then 0 else Suc (index_of a xs))"

definition drop_at :: "nat \<Rightarrow> 'a list \<Rightarrow> 'a list" where
  "drop_at i xs = take i xs @ drop (Suc i) xs"

text \<open>
  \<^verbatim>\<open>pd.merge(x, y, on = ["Wavelength"], suffixes = ("_", "_"))\<close>, as pandas 2 computes
  it: the inner join (the default \<^verbatim>\<open>how\<close>) on the key column.

  The key is looked up in the right frame, then in the left one: a frame without the
  label raises \<^verbatim>\<open>KeyError\<close>, a frame with the label on two columns raises \<^verbatim>\<open>ValueError\<close>.
  The right frame then loses its key column.  A label that is left on both sides gets
  the suffix on each side.  If that makes a label equal to an earlier label of the same
  side, at a position whose label was no repetition before, pandas raises
  \<^verbatim>\<open>MergeError\<close>: \<open>suffix_dups old new\<close> is
  \<^verbatim>\<open>new[new.duplicated() & ~old.duplicated()]\<close>, where \<^verbatim>\<open>duplicated()\<close> marks every
  occurrence of a label but the first.
\<close>

definition repeated :: "'a list \<Rightarrow> nat \<Rightarrow> bool" where
  "repeated xs i = (xs ! i \<in> set (take i xs))"

definition suffix_dups :: "string list \<Rightarrow> string list \<Rightarrow> string list" where
  "suffix_dups old new =
     map (\<lambda>i. new ! i) (filter (\<lambda>i. repeated new i \<and> \<not> repeated old i) [0 ..< length new])"

definition not_unique_msg :: string where
  "not_unique_msg = ''The column label 'Wavelength' is not unique.''"

definition merge_columns :: "string list \<Rightarrow> string list \<Rightarrow> error + string list" where
  "merge_columns xc yc =
     (if key_name \<notin> set yc then Inl KeyError
      else if count_list yc key_name \<noteq> 1 then Inl (ValueError not_unique_msg)
      else if key_name \<notin> set xc then Inl KeyError
      else if count_list xc key_name \<noteq> 1 then Inl (ValueError not_unique_msg)
      else
        (let yv = drop_at (index_of key_name yc) yc;
             llabels = map (\<lambda>c. if c \<in> set yv then c @ ''_'' else c) xc;
             rlabels = map (\<lambda>c. if c \<in> set xc then c @ ''_'' else c) yv
         in if suffix_dups xc llabels @ suffix_dups yv rlabels \<noteq> [] then Inl MergeError
            else Inr (llabels @ rlabels)))"

text \<open>
  Every left row is paired, in order, with every right row of equal key (NaN keys
  match each other, as in pandas); the joined row is the left row, then the right row
  without its key.
\<close>

definition merge_rows :: "nat \<Rightarrow> nat \<Rightarrow> cell list list \<Rightarrow> cell list list \<Rightarrow> cell list list" where
  "merge_rows kx ky xr yr =
     concat (map (\<lambda>rx. map (\<lambda>ry. rx @ drop_at ky ry)
                           (filter (\<lambda>ry. ry ! ky = rx ! kx) yr)) xr)"

definition merge :: "DataFrame \<Rightarrow> DataFrame \<Rightarrow> error + DataFrame" where
  "merge x y =
     (case merge_columns (df_columns x) (df_columns y) of
        Inl e \<Rightarrow> Inl e
      | Inr labels \<Rightarrow>
          Inr \<lparr>df_columns = labels,
               df_rows = merge_rows (index_of key_name (df_columns x))
                           (index_of key_name (df_columns y)) (df_rows x) (df_rows y)\<rparr>)"

text \<open>
  The left fold of \<^verbatim>\<open>functools.reduce\<close> over the remaining frames.  An experiment that
  is not loaded contributes \<^verbatim>\<open>None\<close>, which \<^verbatim>\<open>pd.merge\<close> rejects with a \<^verbatim>\<open>TypeError\<close>.
\<close>

fun merge_fold :: "DataFrame \<Rightarrow> DataFrame option list \<Rightarrow> error + DataFrame" where
  "merge_fold acc [] = Inr acc"
| "merge_fold acc (None # ys) = Inl TypeError"
| "merge_fold acc (Some y # ys) =
     (case merge acc y of Inl e \<Rightarrow> Inl e | Inr a \<Rightarrow> merge_fold a ys)"

section \<open>Objects and the store of objects\<close>

text \<open>
  \<^verbatim>\<open>plotConf\<close> is carried along only; of its fields the title and the axis titles are
  kept.
\<close>

record plotConf =
  pc_title :: "string option"
  pc_axis_titles :: "string option list"

text \<open>
  The private attributes of \<^verbatim>\<open>SpectExp\<close> and \<^verbatim>\<open>SpectGroup\<close>.  Data frames and experiments
  are shared between objects, so an attribute that holds one holds its address: frames,
  experiments and groups live in three lists, an address is a position, and a new object
  is appended.  \<open>None\<close> is Python's \<^verbatim>\<open>None\<close>.
\<close>

record SpectExp =
  exp_plotConf :: plotConf
  exp_data :: "nat option"
  exp_metaInfo :: "string list option"
  exp_sourceFile :: "string option"
  exp_outputPath :: "string option"
  exp_name :: "string option"

record SpectGroup =
  grp_expList :: "nat list"
  grp_plotConf :: plotConf
  grp_data :: "nat option"
  grp_stats :: "nat option"
  grp_outPath :: "string option"
  grp_name :: "string option"

record world =
  frames :: "DataFrame list"
  exps :: "SpectExp list"
  groups :: "SpectGroup list"

text \<open>
  Every address held by an object is allocated.  Python cannot build a state where this
  fails; the theorems about whole states assume it.
\<close>

definition wf_world :: "world \<Rightarrow> bool" where
  "wf_world w =
     ((\<forall>E \<in> set (exps w). \<forall>r. exp_data E = Some r \<longrightarrow> r < length (frames w)) \<and>
      (\<forall>G \<in> set (groups w).
         (\<forall>e \<in> set (grp_expList G). e < length (exps w)) \<and>
         (\<forall>r. grp_data G = Some r \<longrightarrow> r < length (frames w)) \<and>
         (\<forall>r. grp_stats G = Some r \<longrightarrow> r < length (frames w))))"

text \<open>A method returns normally or raises, and leaves a state behind in both cases.\<close>

type_synonym 'a result = "(error + 'a) \<times> world"

section \<open>SpectExp\<close>

definition isLoaded :: "SpectExp \<Rightarrow> bool" where
  "isLoaded E = (exp_data E \<noteq> None)"

text \<open>
  \<^verbatim>\<open>setMetaInfo\<close> is given a list of strings, so its assertions hold.  \<^verbatim>\<open>setData\<close> asserts
  that the frame has two columns, then relabels the first column of the frame object
  itself and stores the object.
\<close>

definition setMetaInfo :: "nat \<Rightarrow> string list \<Rightarrow> world \<Rightarrow> unit result" where
  "setMetaInfo e newMeta w =
     (Inr (), w\<lparr>exps := (exps w)[e := (exps w ! e)\<lparr>exp_metaInfo := Some newMeta\<rparr>]\<rparr>)"

definition exp_setData :: "nat \<Rightarrow> nat \<Rightarrow> world \<Rightarrow> unit result" where
  "exp_setData e r w =
     (if length (df_columns (frames w ! r)) \<noteq> 2 then (Inl AssertionError, w)
      else (Inr (), w\<lparr>frames := (frames w)[r := (frames w ! r)
                           \<lparr>df_columns := [key_name, df_columns (frames w ! r) ! 1]\<rparr>],
                       exps := (exps w)[e := (exps w ! e)\<lparr>exp_data := Some r\<rparr>]\<rparr>))"

text \<open>
  \<^verbatim>\<open>pd.read_csv(..., sep = delim, names = col_names, dtype = convert_dict)\<close> is library
  code; \<^verbatim>\<open>readFile\<close> takes it as a parameter: from the delimiter, the names, the
  conversion table and the lines still unread it gives a new frame or raises.
\<close>

type_synonym csv_reader =
  "string \<Rightarrow> string list option \<Rightarrow> (string \<times> string) list option \<Rightarrow> string list
     \<Rightarrow> error + DataFrame"

text \<open>
  The loop of \<^verbatim>\<open>readFile\<close> over the lines of the file, for a given \<^verbatim>\<open>begin_line\<close>.  A line
  read while \<^verbatim>\<open>begin_line_met\<close> is false is appended to \<^verbatim>\<open>meta_list\<close> and then compared
  with \<^verbatim>\<open>begin_line\<close>; at the first line read while the flag is true, \<^verbatim>\<open>read_csv\<close> is
  handed the file, which stands after that line.  The result is \<^verbatim>\<open>meta_list\<close> and the
  lines left for \<^verbatim>\<open>read_csv\<close>, or \<open>None\<close> when the loop ends without calling it.
\<close>

fun scan_header :: "string \<Rightarrow> bool \<Rightarrow> string list \<Rightarrow> string list
    \<Rightarrow> string list \<times> string list option" where
  "scan_header begin_line begin_line_met meta_list [] = (meta_list, None)"
| "scan_header begin_line begin_line_met meta_list (line # rest) =
     (if begin_line_met then (meta_list, Some rest)
      else scan_header begin_line (line = begin_line) (meta_list @ [line]) rest)"

text \<open>
  The last two statements of \<^verbatim>\<open>readFile\<close>: \<^verbatim>\<open>setMetaInfo(meta_list)\<close>, then
  \<^verbatim>\<open>setData(pandas_read)\<close>, where \<^verbatim>\<open>pandas_read\<close> is unbound if \<^verbatim>\<open>read_csv\<close> was never called.
\<close>

definition finish_read :: "nat \<Rightarrow> string list \<Rightarrow> nat option \<Rightarrow> world \<Rightarrow> unit result" where
  "finish_read e meta_list pandas_read w =
     (case setMetaInfo e meta_list w of
        (Inl err, w1) \<Rightarrow> (Inl err, w1)
      | (Inr u, w1) \<Rightarrow>
          (case pandas_read of
             None \<Rightarrow> (Inl UnboundLocalError, w1)
           | Some r \<Rightarrow> exp_setData e r w1))"

text \<open>
  \<^verbatim>\<open>readFile\<close>, with the file system as a map from paths to the lines of a file (each
  line with its newline).  A frame returned by \<^verbatim>\<open>read_csv\<close> is a new object.
\<close>

definition readFile :: "csv_reader \<Rightarrow> (string \<Rightarrow> string list option) \<Rightarrow> nat \<Rightarrow> string
    \<Rightarrow> string option \<Rightarrow> (string \<times> string) list option \<Rightarrow> string list option
    \<Rightarrow> world \<Rightarrow> unit result" where
  "readFile read_csv fs e delim begin_line convert_dict col_names w =
     (case exp_sourceFile (exps w ! e) of
        None \<Rightarrow> (Inl (if begin_line = None then ValueError ''Invalid file path'' else TypeError), w)
      | Some path \<Rightarrow>
          (case fs path of
             None \<Rightarrow> (Inl FileNotFoundError, w)
           | Some lines \<Rightarrow>
               (case begin_line of
                  None \<Rightarrow>
                    (case read_csv delim col_names convert_dict lines of
                       Inl err \<Rightarrow> (Inl err, w)
                     | Inr f \<Rightarrow> finish_read e [] (Some (length (frames w)))
                                 (w\<lparr>frames := frames w @ [f]\<rparr>))
                | Some b \<Rightarrow>
                    (case scan_header b False [] lines of
                       (meta_list, None) \<Rightarrow> finish_read e meta_list None w
                     | (meta_list, Some rest) \<Rightarrow>
                         (case read_csv delim col_names convert_dict rest of
                            Inl err \<Rightarrow> (Inl err, w)
                          | Inr f \<Rightarrow> finish_read e meta_list (Some (length (frames w)))
                                      (w\<lparr>frames := frames w @ [f]\<rparr>))))))"

subsection \<open>A reader for tables of numbers\<close>

text \<open>
  A stand-in for \<^verbatim>\<open>pd.read_csv(f, sep, names, dtype)\<close> with the defaults of its other
  parameters, for a one-character separator and lines that end in a newline.  Blank
  lines are skipped.  With \<^verbatim>\<open>names\<close> every line is a data row; without, the first line
  gives the labels.

  The table is as wide as the longer of the labels and the first data row.  A later row
  with more fields raises \<^verbatim>\<open>ParserError\<close>; a row with fewer fields is filled up with
  empty fields, which are NaN.  When the table is wider than the labels, the leading
  fields of every row become the row index (which frames here do not have) and the
  labels go to the fields after them.

  A field is a number when it is a decimal numeral, with an optional sign and an
  optional exponent; the cell is the nearest float64.  A field that is one of the
  default NaN markers of pandas is NaN.  Any other field raises \<^verbatim>\<open>ValueError\<close> when the
  conversion table asks for a float in that column.

  What this reader does not cover is answered with \<^verbatim>\<open>NotImplementedError\<close>, which pandas
  never raises here: a field that is not a number in a column for which no float is
  requested (pandas keeps such a column as strings, and a frame of this model cannot
  hold it), and a header line with an empty or a repeated label (pandas renames them).
  Nor covered, and not detected, are numerals that pandas reads and this reader does
  not (infinities, blanks around a numeral, a numeral of magnitude \<open>2 ^ 1024\<close> or more).
\<close>

definition newline :: char where
  "newline = CHR 0x0A"

definition tab :: char where
  "tab = CHR 0x09"

fun split_on :: "char \<Rightarrow> string \<Rightarrow> string list" where
  "split_on d [] = [[]]"
| "split_on d (c # cs) =
     (if c = d then [] # split_on d cs
      else (case split_on d cs of [] \<Rightarrow> [[c]] | f # fs \<Rightarrow> (c # f) # fs))"

definition strip_newline :: "string \<Rightarrow> string" where
  "strip_newline l = (if l \<noteq> [] \<and> last l = newline then butlast l else l)"

definition digit_of :: "char \<Rightarrow> nat option" where
  "digit_of c = (if c \<in> set ''0123456789'' then Some (index_of c ''0123456789'') else None)"

fun parse_digits :: "string \<Rightarrow> nat \<Rightarrow> nat option" where
  "parse_digits [] acc = Some acc"
| "parse_digits (c # cs) acc =
     (case digit_of c of None \<Rightarrow> None | Some d \<Rightarrow> parse_digits cs (10 * acc + d))"

text \<open>
  A sign, the digits before and after the point (at least one digit in all), and an
  exponent of at least one digit after \<^verbatim>\<open>e\<close> or \<^verbatim>\<open>E\<close>.
\<close>

definition parse_sign :: "string \<Rightarrow> int \<times> string" where
  "parse_sign s =
     (case s of
        [] \<Rightarrow> (1, [])
      | c # cs \<Rightarrow> if c = CHR ''-'' then (- 1, cs) else if c = CHR ''+'' then (1, cs) else (1, s))"

definition parse_mantissa :: "string \<Rightarrow> (nat \<times> nat) option" where
  "parse_mantissa s =
     (case split_on (CHR ''.'') s of
        [a] \<Rightarrow> (if a = [] then None else map_option (\<lambda>m. (m, 0)) (parse_digits a 0))
      | [a, b] \<Rightarrow>
          (if a = [] \<and> b = [] then None
           else map_option (\<lambda>m. (m, length b)) (parse_digits (a @ b) 0))
      | _ \<Rightarrow> None)"

definition parse_exponent :: "string \<Rightarrow> int option" where
  "parse_exponent s =
     (case s of
        [] \<Rightarrow> Some 0
      | c # cs \<Rightarrow>
          (case parse_sign cs of
             (sg, ds) \<Rightarrow> if ds = [] then None
                         else map_option (\<lambda>n. sg * int n) (parse_digits ds 0)))"

definition parse_number :: "string \<Rightarrow> real option" where
  "parse_number s =
     (case parse_sign s of
        (sg, body) \<Rightarrow>
          (case (parse_mantissa (takeWhile (\<lambda>c. c \<noteq> CHR ''e'' \<and> c \<noteq> CHR ''E'') body),
                 parse_exponent (dropWhile (\<lambda>c. c \<noteq> CHR ''e'' \<and> c \<noteq> CHR ''E'') body)) of
             (Some (m, k), Some x) \<Rightarrow>
               Some (round64 (of_int sg * real m * 10 powi (x - int k)))
           | _ \<Rightarrow> None))"

definition na_values :: "string list" where
  "na_values = ['''', ''#N/A'', ''#N/A N/A'', ''#NA'', ''-1.#IND'', ''-1.#QNAN'', ''-NaN'',
     ''-nan'', ''1.#IND'', ''1.#QNAN'', ''<NA>'', ''N/A'', ''NA'', ''NULL'', ''NaN'', ''None'',
     ''n/a'', ''nan'', ''null'']"

text \<open>The cell of a field, or \<open>None\<close> for a field that is neither a number nor NaN.\<close>

definition parse_cell :: "string \<Rightarrow> cell option" where
  "parse_cell s = (if s \<in> set na_values then Some None else map_option Some (parse_number s))"

definition float_requested :: "(string \<times> string) list option \<Rightarrow> string \<Rightarrow> bool" where
  "float_requested dtype label =
     (case dtype of
        None \<Rightarrow> False
      | Some d \<Rightarrow> (case map_of d label of
                     None \<Rightarrow> False
                   | Some t \<Rightarrow> t \<in> set [''float'', ''float64'']))"

definition cast_msg :: "string \<Rightarrow> string" where
  "cast_msg s = ''could not convert string to float: '' @ [CHR 0x27] @ s @ [CHR 0x27]"

text \<open>
  The fields of the data rows, once the rows are as wide as the table and the fields of
  the index are gone; then, column by column, the fields that are no numbers.
\<close>

definition table_width :: "nat \<Rightarrow> string list list \<Rightarrow> nat" where
  "table_width n rows = (case rows of [] \<Rightarrow> n | r # rs \<Rightarrow> max n (length r))"

definition too_wide :: "nat \<Rightarrow> string list list \<Rightarrow> bool" where
  "too_wide n rows = (\<exists>r \<in> set rows. table_width n rows < length r)"

definition table_fields :: "nat \<Rightarrow> string list list \<Rightarrow> string list list" where
  "table_fields n rows =
     map (\<lambda>r. drop (table_width n rows - n)
                (r @ replicate (table_width n rows - length r) [])) rows"

definition bad_fields :: "string list list \<Rightarrow> nat \<Rightarrow> string list" where
  "bad_fields flds j = filter (\<lambda>s. parse_cell s = None) (map (\<lambda>r. r ! j) flds)"

definition uncastable :: "(string \<times> string) list option \<Rightarrow> string list \<Rightarrow> string list list
    \<Rightarrow> string list" where
  "uncastable dtype labels flds =
     concat (map (bad_fields flds)
               (filter (\<lambda>j. float_requested dtype (labels ! j)) [0 ..< length labels]))"

definition parse_table :: "(string \<times> string) list option \<Rightarrow> string list \<Rightarrow> string list list
    \<Rightarrow> error + DataFrame" where
  "parse_table dtype labels rows =
     (if too_wide (length labels) rows then Inl ParserError
      else
        (let flds = table_fields (length labels) rows
         in case uncastable dtype labels flds of
              s # ss \<Rightarrow> Inl (ValueError (cast_msg s))
            | [] \<Rightarrow>
                if \<exists>r \<in> set flds. \<exists>s \<in> set r. parse_cell s = None then Inl NotImplementedError
                else Inr \<lparr>df_columns = labels,
                          df_rows = map (map (\<lambda>s. the (parse_cell s))) flds\<rparr>))"

definition data_rows :: "char \<Rightarrow> string list \<Rightarrow> string list list" where
  "data_rows d lines = map (split_on d) (filter (\<lambda>l. l \<noteq> []) (map strip_newline lines))"

definition read_csv_plain :: csv_reader where
  "read_csv_plain delim names dtype lines =
     (case delim of
        [d] \<Rightarrow>
          (case names of
             Some ns \<Rightarrow> parse_table dtype ns (data_rows d lines)
           | None \<Rightarrow>
               (case data_rows d lines of
                  [] \<Rightarrow> Inl ParserError
                | h # rest \<Rightarrow>
                    if [] \<in> set h \<or> \<not> distinct h then Inl NotImplementedError
                    else parse_table dtype h rest))
      | _ \<Rightarrow> Inl ParserError)"

section \<open>SpectGroup\<close>

subsection \<open>Setters and conditions\<close>

text \<open>
  \<^verbatim>\<open>setExpList\<close> raises \<^verbatim>\<open>TypeError\<close> at the first element that is not a \<^verbatim>\<open>SpectExp\<close>,
  before any attribute is written; \<^verbatim>\<open>addExp\<close> asserts the same of its argument.  A
  group's experiment list is a value here: that two groups built from one Python list
  object would share it is not modelled.
\<close>

definition setExpList :: "nat \<Rightarrow> pyval list \<Rightarrow> world \<Rightarrow> unit result" where
  "setExpList g expList w =
     (if \<exists>v \<in> set expList. \<not> is_SpectExp v then (Inl TypeError, w)
      else (Inr (), w\<lparr>groups := (groups w)[g := (groups w ! g)
              \<lparr>grp_expList := map exp_ref expList, grp_data := None, grp_stats := None\<rparr>]\<rparr>))"

definition addExp :: "nat \<Rightarrow> pyval \<Rightarrow> world \<Rightarrow> unit result" where
  "addExp g ex w =
     (if \<not> is_SpectExp ex then (Inl AssertionError, w)
      else (Inr (), w\<lparr>groups := (groups w)[g := (groups w ! g)
              \<lparr>grp_expList := grp_expList (groups w ! g) @ [exp_ref ex],
               grp_data := None, grp_stats := None\<rparr>]\<rparr>))"

definition grp_setData :: "nat \<Rightarrow> nat \<Rightarrow> world \<Rightarrow> unit result" where
  "grp_setData g r w =
     (if key_name \<notin> set (df_columns (frames w ! r)) then (Inl AssertionError, w)
      else (Inr (), w\<lparr>groups := (groups w)[g := (groups w ! g)\<lparr>grp_data := Some r\<rparr>]\<rparr>))"

definition setStats :: "nat \<Rightarrow> nat \<Rightarrow> world \<Rightarrow> unit result" where
  "setStats g r w = (Inr (), w\<lparr>groups := (groups w)[g := (groups w ! g)\<lparr>grp_stats := Some r\<rparr>]\<rparr>)"

definition getExp :: "SpectGroup \<Rightarrow> nat \<Rightarrow> error + nat" where
  "getExp G i = (if i < length (grp_expList G) then Inr (grp_expList G ! i) else Inl IndexError)"

definition isComposed :: "nat \<Rightarrow> world \<Rightarrow> bool" where
  "isComposed g w = (grp_data (groups w ! g) \<noteq> None)"

definition isStats :: "nat \<Rightarrow> world \<Rightarrow> bool" where
  "isStats g w = (grp_stats (groups w ! g) \<noteq> None)"

text \<open>The frames behind a group's two caches, as a caller reads them.\<close>

definition getData :: "nat \<Rightarrow> world \<Rightarrow> DataFrame option" where
  "getData g w = map_option (\<lambda>r. frames w ! r) (grp_data (groups w ! g))"


subsection \<open>Compose\<close>

text \<open>
  The first loop of \<^verbatim>\<open>__Compose\<close>: the indexes are visited in order and the first
  experiment that is not loaded raises \<^verbatim>\<open>ValueError\<close> with its index in the message.
\<close>

definition not_loaded_msg :: "nat \<Rightarrow> string" where
  "not_loaded_msg i = ''Experiment at index '' @ str_nat i @ '' was not loaded''"

fun check_loaded :: "world \<Rightarrow> SpectGroup \<Rightarrow> nat list \<Rightarrow> error option" where
  "check_loaded w G [] = None"
| "check_loaded w G (i # is) =
     (case getExp G i of
        Inl e \<Rightarrow> Some e
      | Inr r \<Rightarrow> if isLoaded (exps w ! r) then check_loaded w G is
                 else Some (ValueError (not_loaded_msg i)))"

text \<open>
  \<^verbatim>\<open>reduce(lambda x, y: pd.merge(...), [x.getData() for x in self.getExpList()])\<close>.
  Without an initial value \<^verbatim>\<open>reduce\<close> raises \<^verbatim>\<open>TypeError\<close> on the empty list and returns
  the only element of a one-element list as it is: the experiment's own frame, not a
  copy.  From two elements on the result is a new frame.
\<close>

definition reduce_merge :: "nat option list \<Rightarrow> world \<Rightarrow> (nat option) result" where
  "reduce_merge ds w =
     (case ds of
        [] \<Rightarrow> (Inl TypeError, w)
      | [d] \<Rightarrow> (Inr d, w)
      | d # ds' \<Rightarrow>
          (case d of
             None \<Rightarrow> (Inl TypeError, w)
           | Some r \<Rightarrow>
               (case merge_fold (frames w ! r) (map (map_option (\<lambda>r'. frames w ! r')) ds') of
                  Inl e \<Rightarrow> (Inl e, w)
                | Inr f \<Rightarrow> (Inr (Some (length (frames w))), w\<lparr>frames := frames w @ [f]\<rparr>))))"

text \<open>
  \<^verbatim>\<open>tmp_data.columns = [...]\<close> writes the labels into the frame object itself and raises
  \<^verbatim>\<open>ValueError\<close> when their number is not the number of columns.
\<close>

definition set_columns :: "nat option \<Rightarrow> string list \<Rightarrow> world \<Rightarrow> unit result" where
  "set_columns d names w =
     (case d of
        None \<Rightarrow> (Inl AttributeError, w)
      | Some r \<Rightarrow>
          if length names \<noteq> length (df_columns (frames w ! r))
          then (Inl (ValueError ''Length mismatch''), w)
          else (Inr (), w\<lparr>frames := (frames w)[r := (frames w ! r)\<lparr>df_columns := names\<rparr>]\<rparr>))"

definition exp_label :: "nat \<Rightarrow> string" where
  "exp_label x = ''Exp_'' @ str_nat x"

definition Compose_internal :: "nat \<Rightarrow> nat list \<Rightarrow> world \<Rightarrow> unit result" where
  "Compose_internal g colIndexes w =
     (case check_loaded w (groups w ! g) colIndexes of
        Some e \<Rightarrow> (Inl e, w)
      | None \<Rightarrow>
          (case reduce_merge (map (\<lambda>e. exp_data (exps w ! e)) (grp_expList (groups w ! g))) w of
             (Inl e, w1) \<Rightarrow> (Inl e, w1)
           | (Inr tmp_data, w1) \<Rightarrow>
               (case set_columns tmp_data (key_name # map exp_label colIndexes) w1 of
                  (Inl e, w2) \<Rightarrow> (Inl e, w2)
                | (Inr u, w2) \<Rightarrow> grp_setData g (the tmp_data) w2)))"

definition Compose :: "nat \<Rightarrow> world \<Rightarrow> unit result" where
  "Compose g w = Compose_internal g [0 ..< length (grp_expList (groups w ! g))] w"

subsection \<open>genStats\<close>

text \<open>
  \<^verbatim>\<open>df[["Wavelength"]]\<close> keeps, and \<^verbatim>\<open>df.drop("Wavelength", axis = 1)\<close> removes, every column
  with that label; both raise \<^verbatim>\<open>KeyError\<close> when there is none.
\<close>

definition select_cols :: "(string \<Rightarrow> bool) \<Rightarrow> DataFrame \<Rightarrow> DataFrame" where
  "select_cols p f =
     \<lparr>df_columns = filter p (df_columns f),
      df_rows = map (\<lambda>r. map snd (filter (\<lambda>cv. p (fst cv)) (zip (df_columns f) r))) (df_rows f)\<rparr>"

text \<open>
  The row reductions \<^verbatim>\<open>min\<close>, \<^verbatim>\<open>max\<close>, \<^verbatim>\<open>mean\<close> and \<^verbatim>\<open>std\<close> with \<^verbatim>\<open>axis = 1\<close> and the
  defaults of pandas: NaN cells are skipped and a row without numbers gives NaN.  The
  mean is the float64 sum of the numbers divided by their count.  \<^verbatim>\<open>std\<close> has
  \<^verbatim>\<open>ddof = 1\<close>: it is NaN when the count is at most one, and otherwise the square root of
  the sum of the squares of \<^verbatim>\<open>avg - x\<close>, divided by the count less one, with \<^verbatim>\<open>avg\<close> the
  sum divided by the count, every operation in float64.
\<close>

definition numbers :: "cell list \<Rightarrow> real list" where
  "numbers r = map the (filter (\<lambda>c. c \<noteq> None) r)"

definition row_min :: "cell list \<Rightarrow> cell" where
  "row_min r = (case numbers r of [] \<Rightarrow> None | x # xs \<Rightarrow> Some (fold min xs x))"

definition row_max :: "cell list \<Rightarrow> cell" where
  "row_max r = (case numbers r of [] \<Rightarrow> None | x # xs \<Rightarrow> Some (fold max xs x))"

definition row_mean :: "cell list \<Rightarrow> cell" where
  "row_mean r = (case numbers r of [] \<Rightarrow> None
                 | x # xs \<Rightarrow> Some (fdiv (fsum (x # xs)) (real (length (x # xs)))))"

definition row_std :: "cell list \<Rightarrow> cell" where
  "row_std r =
     (let xs = numbers r; n = length xs; avg = fdiv (fsum xs) (real n)
      in if n \<le> 1 then None
         else Some (fsqrt (fdiv (fsum (map (\<lambda>x. fmul (fsub avg x) (fsub avg x)) xs))
                              (real (n - 1)))))"

text \<open>
  \<^verbatim>\<open>tmp_stats[name] = series\<close> for a label that \<^verbatim>\<open>tmp_stats\<close> does not have yet: a new last
  column.  (\<^verbatim>\<open>tmp_stats\<close> starts with key columns only, and the four labels differ.)
\<close>

definition add_column :: "string \<Rightarrow> cell list \<Rightarrow> DataFrame \<Rightarrow> DataFrame" where
  "add_column name vals f =
     \<lparr>df_columns = df_columns f @ [name],
      df_rows = map (\<lambda>rv. fst rv @ [snd rv]) (zip (df_rows f) vals)\<rparr>"

definition stats_of :: "DataFrame \<Rightarrow> DataFrame" where
  "stats_of d =
     (let vals = df_rows (select_cols (\<lambda>c. c \<noteq> key_name) d);
          t0 = select_cols (\<lambda>c. c = key_name) d;
          t1 = add_column ''min'' (map row_min vals) t0;
          t2 = add_column ''max'' (map row_max vals) t1;
          t3 = add_column ''mean'' (map row_mean vals) t2
      in add_column ''std'' (map row_std vals) t3)"

definition genStats :: "nat \<Rightarrow> world \<Rightarrow> unit result" where
  "genStats g w =
     (case (if \<not> isComposed g w then Compose g w else (Inr (), w)) of
        (Inl e, w1) \<Rightarrow> (Inl e, w1)
      | (Inr u, w1) \<Rightarrow>
          (let d = frames w1 ! the (grp_data (groups w1 ! g))
           in if key_name \<notin> set (df_columns d) then (Inl KeyError, w1)
              else setStats g (length (frames w1)) (w1\<lparr>frames := frames w1 @ [stats_of d]\<rparr>)))"

subsection \<open>genSubgroup\<close>

text \<open>
  \<^verbatim>\<open>xs[v]\<close> on a Python list: an integer (or a Boolean, which is one) selects an element,
  counting from the end when negative, or raises \<^verbatim>\<open>IndexError\<close>; any other value of
  \<open>pyval\<close> raises \<^verbatim>\<open>TypeError\<close>.
\<close>

definition int_getitem :: "'a list \<Rightarrow> int \<Rightarrow> error + 'a" where
  "int_getitem xs i =
     (if 0 \<le> i \<and> i < int (length xs) then Inr (xs ! nat i)
      else if i < 0 \<and> - int (length xs) \<le> i then Inr (xs ! nat (int (length xs) + i))
      else Inl IndexError)"

fun list_getitem :: "'a list \<Rightarrow> pyval \<Rightarrow> error + 'a" where
  "list_getitem xs (PInt i) = int_getitem xs i"
| "list_getitem xs (PBool b) = int_getitem xs (if b then 1 else 0)"
| "list_getitem xs v = Inl TypeError"

text \<open>
  The body of \<^verbatim>\<open>genSubgroup\<close> for the inner lists from \<^verbatim>\<open>main_index\<close> on.  The inner loop
  asserts that every entry is an integer.  Then the first argument of the constructor
  call is evaluated: \<^verbatim>\<open>self.__expList[groupDef[main_index]]\<close>, the experiment list indexed
  with the inner list itself.  Were an element returned, no signature of the dispatched
  constructor would take a \<^verbatim>\<open>SpectExp\<close> as its first argument (\<^verbatim>\<open>NotImplementedError\<close>).
  The result is the list of the new groups.
\<close>

fun genSubgroup_loop :: "SpectGroup \<Rightarrow> pyval list list \<Rightarrow> world \<Rightarrow> (nat list) result" where
  "genSubgroup_loop G [] w = (Inr [], w)"
| "genSubgroup_loop G (inner # rest) w =
     (if \<exists>v \<in> set inner. \<not> is_int v then (Inl AssertionError, w)
      else (case list_getitem (grp_expList G) (PList inner) of
              Inl e \<Rightarrow> (Inl e, w)
            | Inr x \<Rightarrow> (Inl NotImplementedError, w)))"

definition genSubgroup :: "nat \<Rightarrow> pyval list list \<Rightarrow> world \<Rightarrow> (nat list) result" where
  "genSubgroup g groupDef w = genSubgroup_loop (groups w ! g) groupDef w"

text \<open>
  \<^verbatim>\<open>getExpList(colNums)\<close>, the sibling of \<^verbatim>\<open>genSubgroup\<close> that selects experiments by a list
  of indexes, one index at a time.
\<close>

fun getExpList_sel :: "SpectGroup \<Rightarrow> pyval list \<Rightarrow> error + nat list" where
  "getExpList_sel G [] = Inr []"
| "getExpList_sel G (v # vs) =
     (if \<not> is_int v then Inl AssertionError
      else if \<not> (case v of PInt i \<Rightarrow> i | PBool b \<Rightarrow> (if b then 1 else 0) | _ \<Rightarrow> 0)
                  < int (length (grp_expList G)) then Inl AssertionError
      else (case list_getitem (grp_expList G) v of
              Inl e \<Rightarrow> Inl e
            | Inr x \<Rightarrow> (case getExpList_sel G vs of Inl e \<Rightarrow> Inl e | Inr xs \<Rightarrow> Inr (x # xs))))"

section \<open>Notions used in the statements\<close>






text \<open>
  A cache of group \<open>p\<close> that is at the same time the frame of an experiment carries the
  labels that \<^verbatim>\<open>Compose\<close> writes into such a frame.  This is how \<^verbatim>\<open>Compose\<close> leaves the
  data of a group of one experiment, the only case in which a cache and an experiment
  share a frame; a cache written by \<^verbatim>\<open>genStats\<close>, or by \<^verbatim>\<open>Compose\<close> for two or more
  experiments, is a frame of its own.
\<close>

definition caches_composed :: "nat \<Rightarrow> world \<Rightarrow> bool" where
  "caches_composed p w =
     (\<forall>e < length (exps w). \<forall>r.
        exp_data (exps w ! e) = Some r \<and>
        (grp_data (groups w ! p) = Some r \<or> grp_stats (groups w ! p) = Some r)
        \<longrightarrow> df_columns (frames w ! r) = [key_name, exp_label 0])"

text \<open>
  The row of stats that the specification asks for, written from its words: the key of
  the row, then minimum, maximum and mean of the row's \<open>N\<close> values, then the sample
  standard deviation with \<open>N - 1\<close> in the denominator, which is undefined (NaN) for
  \<open>N = 1\<close>.
\<close>

definition spec_stats_row :: "cell list \<Rightarrow> cell list" where
  "spec_stats_row row =
     (let vs = map the (tl row); n = length vs; m = sum_list vs / real n
      in [hd row, Some (Min (set vs)), Some (Max (set vs)), Some m,
          if n = 1 then None
          else Some (sqrt (sum_list (map (\<lambda>x. (x - m)\<^sup>2) vs) / real (n - 1)))])"




text \<open>
  The row of stats that the code computes, in the words of the specification where
  they apply: the statistics are over the numbers of the row, NaN cells left out, and
  the mean and the standard deviation are float64 results.
\<close>

definition stats_row_f64 :: "cell list \<Rightarrow> cell list" where
  "stats_row_f64 row =
     (let vs = map the (filter (\<lambda>c. c \<noteq> None) (tl row)); n = length vs;
          m = fdiv (fsum vs) (real n)
      in [hd row,
          if n = 0 then None else Some (Min (set vs)),
          if n = 0 then None else Some (Max (set vs)),
          if n = 0 then None else Some m,
          if n \<le> 1 then None
          else Some (fsqrt (fdiv (fsum (map (\<lambda>x. fmul (fsub m x) (fsub m x)) vs))
                               (real (n - 1))))])"

text \<open>
  A table whose sums stay in the range of float64: at most \<open>2 ^ 20\<close> columns, and
  numbers of magnitude at most \<open>2 ^ 500\<close>.
\<close>

definition bounded_table :: "DataFrame \<Rightarrow> bool" where
  "bounded_table d =
     (length (df_columns d) \<le> 2 ^ 20 \<and>
      (\<forall>row \<in> set (df_rows d). \<forall>c \<in> set row.
         case c of None \<Rightarrow> True | Some x \<Rightarrow> \<bar>x\<bar> \<le> 2 ^ 500))"

text \<open>The lines that \<^verbatim>\<open>readFile\<close> hands to \<^verbatim>\<open>read_csv\<close>, if it gets that far.\<close>

definition data_lines :: "string option \<Rightarrow> string list \<Rightarrow> string list option" where
  "data_lines begin_line lines =
     (case begin_line of None \<Rightarrow> Some lines | Some b \<Rightarrow> snd (scan_header b False [] lines))"

section \<open>Example objects\<close>

definition ex_conf :: plotConf where
  "ex_conf = \<lparr>pc_title = None, pc_axis_titles = [None, None]\<rparr>"

definition ex_exp :: "nat option \<Rightarrow> SpectExp" where
  "ex_exp d = \<lparr>exp_plotConf = ex_conf, exp_data = d, exp_metaInfo = None,
     exp_sourceFile = None, exp_outputPath = None, exp_name = None\<rparr>"

definition ex_group :: "nat list \<Rightarrow> nat option \<Rightarrow> nat option \<Rightarrow> SpectGroup" where
  "ex_group es d s = \<lparr>grp_expList = es, grp_plotConf = ex_conf, grp_data = d, grp_stats = s,
     grp_outPath = None, grp_name = None\<rparr>"

text \<open>An experiment's table with the given keys and ten times the key as the measure.\<close>

definition ex_frame :: "real list \<Rightarrow> DataFrame" where
  "ex_frame ks = \<lparr>df_columns = [''Wavelength'', ''Measure''],
                  df_rows = map (\<lambda>k. [Some k, Some (10 * k)]) ks\<rparr>"

definition w_unloaded :: world where
  "w_unloaded = \<lparr>frames = [ex_frame [1, 2, 3]],
                 exps = [ex_exp (Some 0), ex_exp None, ex_exp None],
                 groups = [ex_group [0, 1, 2] (Some 0) None]\<rparr>"

text \<open>
  A source file with two metadata lines, the line \<^verbatim>\<open>BEGIN\<close> and three rows of two
  tab-separated numbers; a source file whose rows have three fields; a source file
  whose last row has one field more than the rows before it; a source file with a row
  of one field; a source file with a field that is not a number; one experiment that
  has its source set and nothing loaded.
\<close>

definition ex_line :: "string \<Rightarrow> string" where
  "ex_line s = s @ [newline]"

definition ex_row :: "string list \<Rightarrow> string" where
  "ex_row flds = ex_line (foldr (\<lambda>f acc. if acc = [] then f else f @ tab # acc) flds [])"

definition ex_file :: "string list" where
  "ex_file = [ex_line ''Date: Mon'', ex_line ''User: lab'', ex_line ''BEGIN'',
              ex_row [''1.0'', ''10.0''], ex_row [''2.0'', ''20.0''], ex_row [''3.0'', ''30.0'']]"

definition ex_file_wide :: "string list" where
  "ex_file_wide = [ex_line ''Date: Mon'', ex_line ''BEGIN'',
              ex_row [''0.5'', ''5.0'', ''50.0''], ex_row [''1.0'', ''10.0'', ''100.0''],
              ex_row [''2.0'', ''20.0'', ''200.0'']]"

definition ex_file_ragged :: "string list" where
  "ex_file_ragged = [ex_line ''Date: Mon'', ex_line ''BEGIN'',
              ex_row [''1.0'', ''10.0''], ex_row [''2.0'', ''20.0''],
              ex_row [''3.0'', ''30.0'', ''300.0'']]"

definition ex_file_short :: "string list" where
  "ex_file_short = [ex_line ''Date: Mon'', ex_line ''BEGIN'',
              ex_row [''1.0'', ''10.0''], ex_row [''2.0''], ex_row [''3.0'', ''30.0'']]"

definition ex_file_text :: "string list" where
  "ex_file_text = [ex_line ''Date: Mon'', ex_line ''BEGIN'',
              ex_row [''1.0'', ''10.0''], ex_row [''2.0'', ''abc''], ex_row [''3.0'', ''30.0'']]"

definition ex_fs :: "string \<Rightarrow> string list option" where
  "ex_fs path = (if path = ''spectrum.txt'' then Some ex_file
                 else if path = ''wide.txt'' then Some ex_file_wide
                 else if path = ''ragged.txt'' then Some ex_file_ragged
                 else if path = ''short.txt'' then Some ex_file_short
                 else if path = ''text.txt'' then Some ex_file_text else None)"

definition w_fresh :: "string \<Rightarrow> world" where
  "w_fresh path = \<lparr>frames = [],
                    exps = [(ex_exp None)\<lparr>exp_sourceFile := Some path\<rparr>],
                    groups = []\<rparr>"

definition w_pair :: world where
  "w_pair = \<lparr>frames = [ex_frame [1, 2, 3], ex_frame [2, 3, 4]],
             exps = [ex_exp (Some 0), ex_exp (Some 1)],
             groups = [ex_group [0, 1] None None]\<rparr>"

text \<open>
  Three loaded experiments with the key columns 1, 2, 3 and 2, 3, 4 and 1, 2, 3, 4, whose
  measures are 10, 100 and 1000 times the key; two with no key in common; one whose
  table has the key 1 twice; two whose value column is itself labelled with the key
  name; four with the same table, all with the value label \<^verbatim>\<open>Measure\<close>.
\<close>

definition ex_table :: "real \<Rightarrow> real list \<Rightarrow> DataFrame" where
  "ex_table c ks = \<lparr>df_columns = [''Wavelength'', ''Measure''],
                     df_rows = map (\<lambda>k. [Some k, Some (c * k)]) ks\<rparr>"


definition w_three :: world where
  "w_three = \<lparr>frames = [ex_table 10 [1, 2, 3], ex_table 100 [2, 3, 4], ex_table 1000 [1, 2, 3, 4]],
              exps = [ex_exp (Some 0), ex_exp (Some 1), ex_exp (Some 2)],
              groups = [ex_group [0, 1, 2] None None]\<rparr>"





text \<open>
  A composed group of one experiment with the value 5 at key 1; the same group before
  composing; a group whose composed table has one row with the values 0, 2, 4 at key 7.
\<close>

definition w_single :: world where
  "w_single = \<lparr>frames = [\<lparr>df_columns = [''Wavelength'', ''Exp_0''], df_rows = [[Some 1, Some 5]]\<rparr>],
               exps = [ex_exp (Some 0)],
               groups = [ex_group [0] (Some 0) None]\<rparr>"

definition w_single_fresh :: world where
  "w_single_fresh =
     \<lparr>frames = [\<lparr>df_columns = [''Wavelength'', ''Measure''], df_rows = [[Some 1, Some 5]]\<rparr>],
      exps = [ex_exp (Some 0)],
      groups = [ex_group [0] None None]\<rparr>"

definition w_triple :: world where
  "w_triple = \<lparr>frames = [\<lparr>df_columns = [''Wavelength'', ''Exp_0'', ''Exp_1'', ''Exp_2''],
                          df_rows = [[Some 7, Some 0, Some 2, Some 4]]\<rparr>],
               exps = [],
               groups = [ex_group [] (Some 0) None]\<rparr>"

text \<open>
  Three loaded experiments that measure, at key 7, the float64 nearest to 0.1 each; and
  three loaded experiments of which the second and the third have NaN at key 7.
\<close>

definition tenth :: real where
  "tenth = 3602879701896397 / 2 ^ 55"

definition w_tenths :: world where
  "w_tenths =
     \<lparr>frames = [\<lparr>df_columns = [''Wavelength'', ''Measure''], df_rows = [[Some 7, Some tenth]]\<rparr>,
                \<lparr>df_columns = [''Wavelength'', ''Measure''], df_rows = [[Some 7, Some tenth]]\<rparr>,
                \<lparr>df_columns = [''Wavelength'', ''Measure''], df_rows = [[Some 7, Some tenth]]\<rparr>],
      exps = [ex_exp (Some 0), ex_exp (Some 1), ex_exp (Some 2)],
      groups = [ex_group [0, 1, 2] None None]\<rparr>"

definition w_nan :: world where
  "w_nan =
     \<lparr>frames = [\<lparr>df_columns = [''Wavelength'', ''Measure''], df_rows = [[Some 7, Some 2]]\<rparr>,
                \<lparr>df_columns = [''Wavelength'', ''Measure''], df_rows = [[Some 7, None]]\<rparr>,
                \<lparr>df_columns = [''Wavelength'', ''Measure''], df_rows = [[Some 7, None]]\<rparr>],
      exps = [ex_exp (Some 0), ex_exp (Some 1), ex_exp (Some 2)],
      groups = [ex_group [0, 1, 2] None None]\<rparr>"

definition w_cached :: world where
  "w_cached = \<lparr>frames = [ex_frame [1, 2, 3]],
               exps = [ex_exp (Some 0)],
               groups = [ex_group [] (Some 0) (Some 0)]\<rparr>"

section \<open>Properties\<close>

subsection \<open>Mutating the experiment list\<close>

text \<open>
  Claim C8.  Both mutators of a group's experiment list clear both caches: when
  \<^verbatim>\<open>setExpList\<close> is given a list of experiments, and when \<^verbatim>\<open>addExp\<close> is given an
  experiment, the call returns normally, the list is replaced (respectively extended at
  its end), and afterwards \<^verbatim>\<open>isComposed()\<close> and \<^verbatim>\<open>isStats()\<close> are both false.
\<close>

theorem mutators_clear_caches:
  assumes "g < length (groups w)"
  shows "((\<forall>v \<in> set xs. is_SpectExp v) \<longrightarrow>
            (\<exists>w'. setExpList g xs w = (Inr (), w') \<and> \<not> isComposed g w' \<and> \<not> isStats g w' \<and>
                  grp_expList (groups w' ! g) = map exp_ref xs))
       \<and> (is_SpectExp x \<longrightarrow>
            (\<exists>w'. addExp g x w = (Inr (), w') \<and> \<not> isComposed g w' \<and> \<not> isStats g w' \<and>
                  grp_expList (groups w' ! g) = grp_expList (groups w ! g) @ [exp_ref x]))"
  using assms by (simp add: setExpList_def addExp_def isComposed_def isStats_def)


theorem mutators_clear_caches_witness:
  "isComposed 0 w_cached \<and> isStats 0 w_cached
   \<and> (\<exists>w'. setExpList 0 [PExp 0] w_cached = (Inr (), w') \<and> \<not> isComposed 0 w' \<and> \<not> isStats 0 w'
            \<and> grp_expList (groups w' ! 0) = [0])
   \<and> (\<exists>w'. addExp 0 (PExp 0) w_cached = (Inr (), w') \<and> \<not> isComposed 0 w' \<and> \<not> isStats 0 w'
            \<and> grp_expList (groups w' ! 0) = [0])"
  using mutators_clear_caches [of 0 w_cached "[PExp 0]" "PExp 0"]
  by (simp add: w_cached_def ex_group_def isComposed_def isStats_def)

subsection \<open>Composing with an experiment that is not loaded\<close>

lemma check_loaded_first:
  assumes "\<forall>j \<in> set pre. j < length (grp_expList G) \<and> isLoaded (exps w ! (grp_expList G ! j))"
    and "i < length (grp_expList G)" and "\<not> isLoaded (exps w ! (grp_expList G ! i))"
  shows "check_loaded w G (pre @ i # post) = Some (ValueError (not_loaded_msg i))"
  using assms by (induction pre) (simp_all add: getExp_def)

lemma check_loaded_all:
  assumes "\<forall>j \<in> set idxs. j < length (grp_expList G) \<and> isLoaded (exps w ! (grp_expList G ! j))"
  shows "check_loaded w G idxs = None"
  using assms by (induction idxs) (simp_all add: getExp_def)

lemma upt_split_at:
  assumes "i < n"
  shows "[0 ..< n] = [0 ..< i] @ i # [Suc i ..< n]"
proof -
  have "[0 ..< i + (n - i)] = [0 ..< i] @ [i ..< i + (n - i)]"
    by (rule upt_add_eq_append) simp
  with assms show ?thesis by (simp add: upt_conv_Cons)
qed

text \<open>
  Claim C5.  If some experiment of the group is not loaded, \<^verbatim>\<open>Compose()\<close> raises the
  \<^verbatim>\<open>ValueError\<close> whose message names the first index that is not loaded, and the state
  after the call is the state before it: nothing is written, so the group's data and
  stats are what they were.
\<close>

theorem Compose_not_loaded:
  assumes "\<exists>i < length (grp_expList (groups w ! g)).
             \<not> isLoaded (exps w ! (grp_expList (groups w ! g) ! i))"
  shows "\<exists>i < length (grp_expList (groups w ! g)).
           \<not> isLoaded (exps w ! (grp_expList (groups w ! g) ! i)) \<and>
           (\<forall>j < i. isLoaded (exps w ! (grp_expList (groups w ! g) ! j))) \<and>
           Compose g w =
             (Inl (ValueError (''Experiment at index '' @ str_nat i @ '' was not loaded'')), w)"
proof -
  define G where "G = groups w ! g"
  define P where "P = (\<lambda>i. \<not> isLoaded (exps w ! (grp_expList G ! i)))"
  define i where "i = (LEAST i. i < length (grp_expList G) \<and> P i)"
  from assms have ex: "\<exists>i. i < length (grp_expList G) \<and> P i"
    by (auto simp: G_def P_def)
  then have i: "i < length (grp_expList G)" "P i"
    unfolding i_def by (metis (mono_tags, lifting) LeastI_ex)+
  have least: "\<And>j. j < i \<Longrightarrow> \<not> P j"
  proof
    fix j assume "j < i" "P j"
    then have "j < length (grp_expList G) \<and> P j" using i(1) by simp
    then have "i \<le> j" unfolding i_def by (rule Least_le)
    with \<open>j < i\<close> show False by simp
  qed
  have "check_loaded w G ([0 ..< i] @ i # [Suc i ..< length (grp_expList G)])
          = Some (ValueError (not_loaded_msg i))"
    using i least by (intro check_loaded_first) (auto simp: P_def)
  then have "check_loaded w G [0 ..< length (grp_expList G)] = Some (ValueError (not_loaded_msg i))"
    using upt_split_at [OF i(1)] by simp
  then have "Compose g w = (Inl (ValueError (not_loaded_msg i)), w)"
    by (simp add: Compose_def Compose_internal_def G_def)
  with i least show ?thesis
    unfolding G_def P_def not_loaded_msg_def by blast
qed

theorem Compose_not_loaded_witness:
  "Compose 0 w_unloaded = (Inl (ValueError ''Experiment at index 1 was not loaded''), w_unloaded)"
proof -
  have h: "\<exists>i < length (grp_expList (groups w_unloaded ! 0)).
             \<not> isLoaded (exps w_unloaded ! (grp_expList (groups w_unloaded ! 0) ! i))"
    by (rule exI [of _ 1]) (simp add: w_unloaded_def ex_group_def ex_exp_def isLoaded_def)
  from Compose_not_loaded [OF h] obtain i where
    i: "i < length (grp_expList (groups w_unloaded ! 0))"
       "\<forall>j < i. isLoaded (exps w_unloaded ! (grp_expList (groups w_unloaded ! 0) ! j))"
       "\<not> isLoaded (exps w_unloaded ! (grp_expList (groups w_unloaded ! 0) ! i))"
       "Compose 0 w_unloaded =
          (Inl (ValueError (''Experiment at index '' @ str_nat i @ '' was not loaded'')), w_unloaded)"
    by blast
  have "i = 1"
  proof -
    have "i < 3" using i(1) by (simp add: w_unloaded_def ex_group_def)
    then consider "i = 0" | "i = 1" | "i = 2" by arith
    then show ?thesis
    proof cases
      case 1
      with i(3) show ?thesis by (simp add: w_unloaded_def ex_group_def ex_exp_def isLoaded_def)
    next
      case 2
      then show ?thesis .
    next
      case 3
      with i(2) have "isLoaded (exps w_unloaded ! (grp_expList (groups w_unloaded ! 0) ! 1))"
        by simp
      then show ?thesis by (simp add: w_unloaded_def ex_group_def ex_exp_def isLoaded_def)
    qed
  qed
  then show ?thesis using i(4) by (simp add: str_nat.simps digit_def)
qed


subsection \<open>Loading a source file\<close>

lemma scan_header_found:
  assumes "b \<notin> set metas"
  shows "scan_header b False acc (metas @ b # rest)
           = (acc @ metas @ [b], case rest of [] \<Rightarrow> None | d # ds \<Rightarrow> Some ds)"
  using assms by (induction metas arbitrary: acc) (auto split: list.splits)

lemma scan_header_missing:
  assumes "b \<notin> set lines"
  shows "scan_header b False acc lines = (acc @ lines, None)"
  using assms by (induction lines arbitrary: acc) auto

text \<open>
  What \<^verbatim>\<open>readFile\<close> does with a file of metadata lines, the sentinel and at least one
  further line, for any reader: the sentinel is stored as the last metadata line, the
  line after the sentinel is read by the loop and dropped, and the reader is given the
  lines after that one.
\<close>

lemma readFile_sentinel:
  assumes src: "exp_sourceFile (exps w ! e) = Some path"
      and fl: "fs path = Some (metas @ b # d # ds)"
      and b: "b \<notin> set metas"
      and rd: "read_csv delim col_names convert_dict ds = Inr f"
      and two: "length (df_columns f) = 2"
      and e: "e < length (exps w)"
  shows "\<exists>w'. readFile read_csv fs e delim (Some b) convert_dict col_names w = (Inr (), w')
           \<and> exp_metaInfo (exps w' ! e) = Some (metas @ [b])
           \<and> (\<exists>r. exp_data (exps w' ! e) = Some r \<and> r < length (frames w')
                  \<and> df_rows (frames w' ! r) = df_rows f
                  \<and> df_columns (frames w' ! r) = [key_name, df_columns f ! 1])"
  using assms
  by (simp add: readFile_def scan_header_found [where acc = "[]", simplified]
      finish_read_def setMetaInfo_def exp_setData_def)

text \<open>
  Claim C3, evaluated.  The file has two metadata lines, the sentinel line \<^verbatim>\<open>BEGIN\<close> and
  three rows of two tab-separated numbers (keys 1, 2, 3).  \<^verbatim>\<open>readFile\<close> with that sentinel
  returns normally, but the stored metadata has three lines, the sentinel among them, and
  the stored table has two rows, for the keys 2 and 3: the claimed lengths 2 and 3 are
  not what the code produces.
\<close>

theorem readFile_example:
  "readFile read_csv_plain ex_fs 0 [tab] (Some (ex_line ''BEGIN'')) None
      (Some [''Wavelength'', ''Measure'']) (w_fresh ''spectrum.txt'')
   = (Inr (),
      \<lparr>frames = [\<lparr>df_columns = [''Wavelength'', ''Measure''],
                  df_rows = [[Some 2, Some 20], [Some 3, Some 30]]\<rparr>],
       exps = [(ex_exp (Some 0))
                 \<lparr>exp_metaInfo := Some [ex_line ''Date: Mon'', ex_line ''User: lab'',
                                        ex_line ''BEGIN''],
                  exp_sourceFile := Some ''spectrum.txt''\<rparr>],
       groups = []\<rparr>)"
  by code_simp

subsection \<open>Subgroups\<close>

lemma genSubgroup_never_returns:
  "fst (genSubgroup g (inner # rest) w) \<noteq> Inr subs"
  by (simp add: genSubgroup_def)

text \<open>
  Claim C4, evaluated.  For a group of two experiments and the index sets \<^verbatim>\<open>[[0], [1]]\<close>,
  all in range, \<^verbatim>\<open>genSubgroup\<close> raises \<^verbatim>\<open>TypeError\<close> and returns no group: the experiment
  list is indexed with the inner list as a whole.  \<^verbatim>\<open>getExpList(colNums)\<close> of the same
  class, which indexes with one integer at a time, selects the experiments at those
  positions.
\<close>

theorem genSubgroup_raises:
  "genSubgroup 0 [[PInt 0], [PInt 1]] w_pair = (Inl TypeError, w_pair)
   \<and> getExpList_sel (groups w_pair ! 0) [PInt 0] = Inr [0]
   \<and> getExpList_sel (groups w_pair ! 0) [PInt 1] = Inr [1]"
  by (simp add: genSubgroup_def w_pair_def ex_group_def int_getitem_def)

subsection \<open>Well-formed states\<close>

lemma wf_world_exp:
  assumes "wf_world w" "g < length (groups w)" "e \<in> set (grp_expList (groups w ! g))"
  shows "e < length (exps w)"
  using assms nth_mem [of g "groups w"] by (auto simp: wf_world_def)

lemma wf_world_frame:
  assumes "wf_world w" "e < length (exps w)" "exp_data (exps w ! e) = Some r"
  shows "r < length (frames w)"
  using assms nth_mem [of e "exps w"] by (auto simp: wf_world_def)

subsection \<open>The join of the experiments' tables\<close>
























lemma check_loaded_range:
  assumes "\<forall>e \<in> set (grp_expList G). isLoaded (exps w ! e)"
  shows "check_loaded w G [0 ..< length (grp_expList G)] = None"
proof (rule check_loaded_all, rule ballI)
  fix j assume "j \<in> set [0 ..< length (grp_expList G)]"
  then have j: "j < length (grp_expList G)" by simp
  then have "grp_expList G ! j \<in> set (grp_expList G)" by (rule nth_mem)
  with assms j show "j < length (grp_expList G) \<and> isLoaded (exps w ! (grp_expList G ! j))"
    by simp
qed

lemma Compose_one:
  assumes es: "grp_expList (groups w ! g) = [e]"
      and d: "exp_data (exps w ! e) = Some r"
      and two: "length (df_columns (frames w ! r)) = 2"
      and r: "r < length (frames w)"
  shows "Compose g w =
           (Inr (), w\<lparr>frames := (frames w)[r := (frames w ! r)\<lparr>df_columns := [key_name, exp_label 0]\<rparr>],
                      groups := (groups w)[g := (groups w ! g)\<lparr>grp_data := Some r\<rparr>]\<rparr>)"
  using assms
  by (simp add: Compose_def Compose_internal_def getExp_def isLoaded_def reduce_merge_def
      set_columns_def grp_setData_def)

lemma reduce_many:
  assumes ld: "\<forall>e \<in> set (e0 # e1 # es). isLoaded (exps w ! e)"
  shows "reduce_merge (map (\<lambda>e. exp_data (exps w ! e)) (e0 # e1 # es)) w
         = (case merge_fold (frames w ! the (exp_data (exps w ! e0)))
                 (map Some (map (\<lambda>e. frames w ! the (exp_data (exps w ! e))) (e1 # es))) of
              Inl err \<Rightarrow> (Inl err, w)
            | Inr m \<Rightarrow> (Inr (Some (length (frames w))), w\<lparr>frames := frames w @ [m]\<rparr>))"
proof -
  from ld obtain r0 where r0: "exp_data (exps w ! e0) = Some r0"
    by (auto simp: isLoaded_def)
  have opt: "map (map_option (\<lambda>r'. frames w ! r')) (map (\<lambda>e. exp_data (exps w ! e)) (e1 # es))
        = map Some (map (\<lambda>e. frames w ! the (exp_data (exps w ! e))) (e1 # es))"
    unfolding map_map
  proof (rule map_cong [OF refl])
    fix e assume "e \<in> set (e1 # es)"
    with ld have "isLoaded (exps w ! e)" by auto
    then show "(map_option (\<lambda>r'. frames w ! r') \<circ> (\<lambda>e. exp_data (exps w ! e))) e
        = (Some \<circ> (\<lambda>e. frames w ! the (exp_data (exps w ! e)))) e"
      by (auto simp: isLoaded_def)
  qed
  have "reduce_merge (map (\<lambda>e. exp_data (exps w ! e)) (e0 # e1 # es)) w
      = (case merge_fold (frames w ! r0)
               (map (map_option (\<lambda>r'. frames w ! r')) (map (\<lambda>e. exp_data (exps w ! e)) (e1 # es))) of
            Inl err \<Rightarrow> (Inl err, w)
          | Inr m \<Rightarrow> (Inr (Some (length (frames w))), w\<lparr>frames := frames w @ [m]\<rparr>))"
    using r0 by (simp add: reduce_merge_def)
  then show ?thesis by (simp only: opt r0 option.sel)
qed

lemma Compose_many:
  assumes es: "grp_expList (groups w ! g) = e0 # e1 # es"
      and ld: "\<forall>e \<in> set (e0 # e1 # es). isLoaded (exps w ! e)"
  shows "Compose g w =
           (case merge_fold (frames w ! the (exp_data (exps w ! e0)))
                 (map Some (map (\<lambda>e. frames w ! the (exp_data (exps w ! e))) (e1 # es))) of
              Inl err \<Rightarrow> (Inl err, w)
            | Inr m \<Rightarrow>
                if length (df_columns m) = Suc (Suc (Suc (length es)))
                then (Inr (), w\<lparr>frames := frames w @ [m\<lparr>df_columns :=
                                   key_name # map exp_label [0 ..< Suc (Suc (length es))]\<rparr>],
                      groups := (groups w)[g := (groups w ! g)\<lparr>grp_data := Some (length (frames w))\<rparr>]\<rparr>)
                else (Inl (ValueError ''Length mismatch''), w\<lparr>frames := frames w @ [m]\<rparr>))"
proof -
  have chk: "check_loaded w (groups w ! g) [0 ..< length (grp_expList (groups w ! g))] = None"
    by (rule check_loaded_range) (use es ld in simp)
  have red: "reduce_merge (map (\<lambda>e. exp_data (exps w ! e)) (grp_expList (groups w ! g))) w
         = (case merge_fold (frames w ! the (exp_data (exps w ! e0)))
                 (map Some (map (\<lambda>e. frames w ! the (exp_data (exps w ! e))) (e1 # es))) of
              Inl err \<Rightarrow> (Inl err, w)
            | Inr m \<Rightarrow> (Inr (Some (length (frames w))), w\<lparr>frames := frames w @ [m]\<rparr>))"
    by (simp only: es reduce_many [OF ld])
  define R where "R = merge_fold (frames w ! the (exp_data (exps w ! e0)))
                 (map Some (map (\<lambda>e. frames w ! the (exp_data (exps w ! e))) (e1 # es)))"
  have c1: "Compose g w =
      (case reduce_merge (map (\<lambda>e. exp_data (exps w ! e)) (grp_expList (groups w ! g))) w of
         (Inl e, w1) \<Rightarrow> (Inl e, w1)
       | (Inr tmp_data, w1) \<Rightarrow>
           (case set_columns tmp_data
                   (key_name # map exp_label [0 ..< length (grp_expList (groups w ! g))]) w1 of
              (Inl e, w2) \<Rightarrow> (Inl e, w2)
            | (Inr u, w2) \<Rightarrow> grp_setData g (the tmp_data) w2))"
    by (simp only: Compose_def Compose_internal_def chk option.case)
  have len: "length (grp_expList (groups w ! g)) = Suc (Suc (length es))"
    by (simp add: es)
  show ?thesis
    unfolding c1 red len R_def [symmetric]
    by (cases R) (simp_all add: set_columns_def grp_setData_def)
qed













subsection \<open>What Compose and genStats write\<close>

lemma reduce_merge_effect:
  assumes "reduce_merge ds w = (res, w')"
  shows "(w' = w \<and> (\<forall>d. res = Inr d \<longrightarrow> ds = [d]))
          \<or> (\<exists>f. w' = w\<lparr>frames := frames w @ [f]\<rparr> \<and> res = Inr (Some (length (frames w))))"
  using assms
  by (auto simp: reduce_merge_def split: list.splits option.splits sum.splits)

lemma set_columns_effect:
  assumes "set_columns d names w = (res, w')"
  shows "w' = w \<or> (\<exists>r. d = Some r \<and> res = Inr ()
                      \<and> w' = w\<lparr>frames := (frames w)[r := (frames w ! r)\<lparr>df_columns := names\<rparr>]\<rparr>)"
  using assms by (auto simp: set_columns_def split: option.splits if_splits)

lemma grp_setData_effect:
  assumes "grp_setData s r w = (res, w')"
  shows "exps w' = exps w \<and> frames w' = frames w \<and> length (groups w') = length (groups w)
       \<and> (\<forall>p. p \<noteq> s \<longrightarrow> groups w' ! p = groups w ! p)
       \<and> grp_stats (groups w' ! s) = grp_stats (groups w ! s)
       \<and> grp_expList (groups w' ! s) = grp_expList (groups w ! s)"
  using assms
  by (cases "s < length (groups w)")
     (auto simp: grp_setData_def list_update_beyond not_less split: if_splits)

lemma Compose_steps:
  assumes "Compose s w = (res, w')"
  shows "w' = w
       \<or> (\<exists>r1 w1 w2 r2.
            reduce_merge (map (\<lambda>e. exp_data (exps w ! e)) (grp_expList (groups w ! s))) w = (r1, w1)
          \<and> (w' = w1
             \<or> (\<exists>d. r1 = Inr d
                   \<and> set_columns d (key_name # map exp_label [0 ..< length (grp_expList (groups w ! s))]) w1
                       = (r2, w2)
                   \<and> (w' = w2 \<or> grp_setData s (the d) w2 = (res, w')))))"
  using assms
  by (auto simp: Compose_def Compose_internal_def split: option.splits sum.splits prod.splits)

lemma Compose_effect:
  assumes "Compose s w = (res, w')"
  shows "exps w' = exps w \<and> length (groups w') = length (groups w)
       \<and> (\<forall>p. p \<noteq> s \<longrightarrow> groups w' ! p = groups w ! p)
       \<and> grp_stats (groups w' ! s) = grp_stats (groups w ! s)
       \<and> grp_expList (groups w' ! s) = grp_expList (groups w ! s)
       \<and> length (frames w) \<le> length (frames w')
       \<and> (\<forall>r < length (frames w). frames w' ! r = frames w ! r
            \<or> (\<exists>e. grp_expList (groups w ! s) = [e] \<and> exp_data (exps w ! e) = Some r
                  \<and> frames w' ! r = (frames w ! r)\<lparr>df_columns := [key_name, exp_label 0]\<rparr>))"
  (is "?P w'")
proof -
  let ?ds = "map (\<lambda>e. exp_data (exps w ! e)) (grp_expList (groups w ! s))"
  let ?names = "key_name # map exp_label [0 ..< length (grp_expList (groups w ! s))]"
  have base: "?P w" by simp
  have lift: "\<And>v r. ?P v \<Longrightarrow> grp_setData s r v = (res, w') \<Longrightarrow> ?P w'"
  proof -
    fix v r assume v: "?P v" and sd: "grp_setData s r v = (res, w')"
    from grp_setData_effect [OF sd] v show "?P w'" by simp
  qed
  from Compose_steps [OF assms] consider
      (unchanged) "w' = w"
    | (steps) r1 w1 w2 r2 where "reduce_merge ?ds w = (r1, w1)"
        "w' = w1 \<or> (\<exists>d. r1 = Inr d \<and> set_columns d ?names w1 = (r2, w2)
                      \<and> (w' = w2 \<or> grp_setData s (the d) w2 = (res, w')))"
    by blast
  then show ?thesis
  proof cases
    case unchanged
    with base show ?thesis by simp
  next
    case steps
    note rme = reduce_merge_effect [OF steps(1)]
    have p1: "?P w1"
      using rme base by (auto simp: nth_append)
    have p2: "?P w2" if d: "r1 = Inr d" and sc: "set_columns d ?names w1 = (r2, w2)" for d
    proof -
      from rme consider
          (same) "w1 = w" "\<forall>d. r1 = Inr d \<longrightarrow> ?ds = [d]"
        | (new) f where "w1 = w\<lparr>frames := frames w @ [f]\<rparr>" "r1 = Inr (Some (length (frames w)))"
        by blast
      then show ?thesis
      proof cases
        case same
        from same d have one: "?ds = [d]" by simp
        then obtain e where e: "grp_expList (groups w ! s) = [e]" "d = exp_data (exps w ! e)"
          by (cases "grp_expList (groups w ! s)") auto
        from set_columns_effect [OF sc] same(1) consider "w2 = w"
          | r where "d = Some r" "w2 = w\<lparr>frames := (frames w)[r := (frames w ! r)\<lparr>df_columns := ?names\<rparr>]\<rparr>"
          by auto
        then show ?thesis
        proof cases
          case 1 with base show ?thesis by simp
        next
          case 2
          have nm: "?names = [key_name, exp_label 0]" using e(1) by simp
          have fr: "\<And>ra X. ra < length (frames w) \<Longrightarrow>
              (frames w)[r := X] ! ra = (if ra = r then X else frames w ! ra)"
            by (metis nth_list_update_eq nth_list_update_neq)
          from 2 e show ?thesis unfolding nm by (auto simp: fr)
        qed
      next
        case new
        from set_columns_effect [OF sc] new d consider "w2 = w1"
          | "w2 = w1\<lparr>frames := (frames w1)[length (frames w) :=
                        (frames w1 ! length (frames w))\<lparr>df_columns := ?names\<rparr>]\<rparr>"
          by auto
        then show ?thesis
        proof cases
          case 1 with new show ?thesis by (simp add: nth_append)
        next
          case 2 with new show ?thesis by (simp add: nth_append)
        qed
      qed
    qed
    from steps(2) show ?thesis
    proof
      assume "w' = w1" with p1 show ?thesis by simp
    next
      assume "\<exists>d. r1 = Inr d \<and> set_columns d ?names w1 = (r2, w2)
                \<and> (w' = w2 \<or> grp_setData s (the d) w2 = (res, w'))"
      then obtain d where d: "r1 = Inr d" "set_columns d ?names w1 = (r2, w2)"
        "w' = w2 \<or> grp_setData s (the d) w2 = (res, w')" by blast
      from p2 [OF d(1,2)] have "?P w2" .
      with d(3) lift show ?thesis by blast
    qed
  qed
qed

lemma genStats_steps:
  assumes "genStats s w = (res, w')"
  shows "\<exists>r1 w1. (w1 = w \<or> Compose s w = (r1, w1))
           \<and> (w' = w1
              \<or> (\<exists>f. w' = w1\<lparr>frames := frames w1 @ [f],
                            groups := (groups w1)[s := (groups w1 ! s)
                                        \<lparr>grp_stats := Some (length (frames w1))\<rparr>]\<rparr>))"
  using assms
  by (auto simp: genStats_def setStats_def Let_def split: if_splits sum.splits prod.splits)






subsection \<open>Composing twice\<close>

lemma Compose_sets_data:
  assumes c: "Compose g w = (Inr u, w1)" and g: "g < length (groups w)"
  shows "isComposed g w1"
proof -
  let ?ds = "map (\<lambda>e. exp_data (exps w ! e)) (grp_expList (groups w ! g))"
  let ?names = "key_name # map exp_label [0 ..< length (grp_expList (groups w ! g))]"
  obtain r1 v1 where rm: "reduce_merge ?ds w = (r1, v1)" by (cases "reduce_merge ?ds w")
  from c rm obtain d where d: "r1 = Inr d"
    by (cases r1) (auto simp: Compose_def Compose_internal_def split: option.splits)
  obtain r2 v2 where sc: "set_columns d ?names v1 = (r2, v2)" by (cases "set_columns d ?names v1")
  from c rm d sc have fin: "r2 = Inr () \<and> grp_setData g (the d) v2 = (Inr u, w1)"
    by (cases r2) (auto simp: Compose_def Compose_internal_def split: option.splits)
  have "groups v1 = groups w" using reduce_merge_effect [OF rm] by auto
  moreover have "groups v2 = groups v1" using set_columns_effect [OF sc] by auto
  ultimately have "g < length (groups v2)" using g by simp
  with fin show ?thesis
    by (auto simp: grp_setData_def isComposed_def split: if_splits)
qed

lemma check_loaded_none:
  assumes "check_loaded w G idxs = None"
  shows "\<forall>j \<in> set idxs. j < length (grp_expList G) \<and> isLoaded (exps w ! (grp_expList G ! j))"
  using assms
  by (induction idxs) (auto simp: getExp_def split: if_splits)

lemma check_loaded_none_all:
  assumes "check_loaded w G [0 ..< length (grp_expList G)] = None"
  shows "\<forall>e \<in> set (grp_expList G). isLoaded (exps w ! e)"
proof
  fix e assume "e \<in> set (grp_expList G)"
  then obtain j where j: "j < length (grp_expList G)" "grp_expList G ! j = e"
    by (auto simp: in_set_conv_nth)
  with check_loaded_none [OF assms] show "isLoaded (exps w ! e)" by auto
qed

lemma Compose_not_checked:
  assumes "check_loaded w (groups w ! g) [0 ..< length (grp_expList (groups w ! g))] = Some e"
  shows "Compose g w = (Inl e, w)"
  using assms by (simp add: Compose_def Compose_internal_def)

lemma Compose_none:
  assumes "grp_expList (groups w ! g) = []"
  shows "Compose g w = (Inl TypeError, w)"
  using assms by (simp add: Compose_def Compose_internal_def reduce_merge_def)

lemma Compose_one_mismatch:
  assumes es: "grp_expList (groups w ! g) = [e]"
      and d: "exp_data (exps w ! e) = Some r"
      and two: "length (df_columns (frames w ! r)) \<noteq> 2"
  shows "Compose g w = (Inl (ValueError ''Length mismatch''), w)"
  using assms
  by (simp add: Compose_def Compose_internal_def getExp_def isLoaded_def reduce_merge_def
      set_columns_def)

lemma unchanged_twice:
  assumes "snd (Compose g w) = w"
  shows "fst (Compose g (snd (Compose g w))) = fst (Compose g w)
       \<and> getData g (snd (Compose g (snd (Compose g w)))) = getData g (snd (Compose g w))"
  using assms by simp

lemma merge_fold_again:
  assumes same: "\<forall>e \<in> set (e0 # es). frames w1 ! the (exp_data (exps w1 ! e))
                                       = frames w ! the (exp_data (exps w ! e))"
  shows "merge_fold (frames w1 ! the (exp_data (exps w1 ! e0)))
           (map Some (map (\<lambda>e. frames w1 ! the (exp_data (exps w1 ! e))) es))
       = merge_fold (frames w ! the (exp_data (exps w ! e0)))
           (map Some (map (\<lambda>e. frames w ! the (exp_data (exps w ! e))) es))"
proof -
  have m: "map (\<lambda>e. frames w1 ! the (exp_data (exps w1 ! e))) es
      = map (\<lambda>e. frames w ! the (exp_data (exps w ! e))) es"
    by (rule map_cong [OF refl]) (use same in auto)
  have h: "frames w1 ! the (exp_data (exps w1 ! e0)) = frames w ! the (exp_data (exps w ! e0))"
    using same by simp
  show ?thesis unfolding m h ..
qed

text \<open>
  Claim C7.  In a well-formed state, a second \<^verbatim>\<open>Compose()\<close> right after a first one
  has the outcome of the first (it returns normally if the first did, and raises the
  same error if the first raised), and the group's data read after the second call is
  the table read after the first: same columns, same rows, same values.  When the
  calls return normally, that table is set.  (There is no cache test in \<^verbatim>\<open>Compose\<close>:
  the second call computes the table again from the same experiments.)
\<close>

theorem Compose_twice:
  assumes wf: "wf_world w" and g: "g < length (groups w)"
  shows "fst (Compose g (snd (Compose g w))) = fst (Compose g w)
       \<and> getData g (snd (Compose g (snd (Compose g w)))) = getData g (snd (Compose g w))
       \<and> (fst (Compose g w) = Inr () \<longrightarrow> getData g (snd (Compose g w)) \<noteq> None)"
proof -
  let ?es = "grp_expList (groups w ! g)"
  have third: "fst (Compose g w) = Inr () \<longrightarrow> getData g (snd (Compose g w)) \<noteq> None"
  proof
    assume "fst (Compose g w) = Inr ()"
    then have "Compose g w = (Inr (), snd (Compose g w))" by (simp add: prod_eq_iff)
    from Compose_sets_data [OF this g] show "getData g (snd (Compose g w)) \<noteq> None"
      by (simp add: isComposed_def getData_def)
  qed
  have refs: "\<exists>r. exp_data (exps w ! e) = Some r \<and> r < length (frames w)"
    if "e \<in> set ?es" "isLoaded (exps w ! e)" for e
  proof -
    from that(2) obtain r where r: "exp_data (exps w ! e) = Some r" by (auto simp: isLoaded_def)
    from wf g that(1) have "e < length (exps w)" by (rule wf_world_exp)
    with wf r have "r < length (frames w)" by (auto intro: wf_world_frame)
    with r show ?thesis by simp
  qed
  have "fst (Compose g (snd (Compose g w))) = fst (Compose g w)
       \<and> getData g (snd (Compose g (snd (Compose g w)))) = getData g (snd (Compose g w))"
  proof (cases "check_loaded w (groups w ! g) [0 ..< length ?es]")
    case (Some e)
    from Compose_not_checked [OF Some] show ?thesis by (intro unchanged_twice) simp
  next
    case None
    note ld = check_loaded_none_all [OF None]
    show ?thesis
    proof (cases ?es)
      case Nil
      from Compose_none [OF Nil] show ?thesis by (intro unchanged_twice) simp
    next
      case (Cons e0 rest)
      show ?thesis
      proof (cases rest)
        case Nil
        with Cons have one: "?es = [e0]" by simp
        from refs [of e0] ld one obtain r where
          r: "exp_data (exps w ! e0) = Some r" "r < length (frames w)" by auto
        show ?thesis
        proof (cases "length (df_columns (frames w ! r)) = 2")
          case False
          from Compose_one_mismatch [OF one r(1) False] show ?thesis
            by (intro unchanged_twice) simp
        next
          case True
          let ?d = "(frames w ! r)\<lparr>df_columns := [key_name, exp_label 0]\<rparr>"
          let ?w1 = "w\<lparr>frames := (frames w)[r := ?d],
                       groups := (groups w)[g := (groups w ! g)\<lparr>grp_data := Some r\<rparr>]\<rparr>"
          have c1: "Compose g w = (Inr (), ?w1)"
            using one r(1) True r(2) by (rule Compose_one)
          have one': "grp_expList (groups ?w1 ! g) = [e0]" using g one by simp
          have d': "exp_data (exps ?w1 ! e0) = Some r" using r(1) by simp
          have two': "length (df_columns (frames ?w1 ! r)) = 2" using r(2) by simp
          have r': "r < length (frames ?w1)" using r(2) by simp
          have c2: "Compose g ?w1 =
              (Inr (), ?w1\<lparr>frames := (frames ?w1)[r := (frames ?w1 ! r)\<lparr>df_columns := [key_name, exp_label 0]\<rparr>],
                           groups := (groups ?w1)[g := (groups ?w1 ! g)\<lparr>grp_data := Some r\<rparr>]\<rparr>)"
            using one' d' two' r' by (rule Compose_one)
          have g1: "getData g ?w1 = Some ?d" using g r(2) by (simp add: getData_def)
          have g2: "getData g (?w1\<lparr>frames := (frames ?w1)[r := (frames ?w1 ! r)\<lparr>df_columns := [key_name, exp_label 0]\<rparr>],
                           groups := (groups ?w1)[g := (groups ?w1 ! g)\<lparr>grp_data := Some r\<rparr>]\<rparr>) = Some ?d"
            using g r(2) by (simp add: getData_def)
          show ?thesis unfolding c1 snd_conv fst_conv c2 g1 g2 by simp
        qed
      next
        case (Cons e1 es')
        with \<open>?es = e0 # rest\<close> have many: "?es = e0 # e1 # es'" by simp
        have ldl: "\<forall>e \<in> set (e0 # e1 # es'). isLoaded (exps w ! e)"
          using ld many by simp
        define R where "R = merge_fold (frames w ! the (exp_data (exps w ! e0)))
                 (map Some (map (\<lambda>e. frames w ! the (exp_data (exps w ! e))) (e1 # es')))"
        note cm = Compose_many [OF many ldl, folded R_def]
        have again: "Compose g w1 =
           (case R of
              Inl err \<Rightarrow> (Inl err, w1)
            | Inr m \<Rightarrow>
                if length (df_columns m) = Suc (Suc (Suc (length es')))
                then (Inr (), w1\<lparr>frames := frames w1 @ [m\<lparr>df_columns :=
                                   key_name # map exp_label [0 ..< Suc (Suc (length es'))]\<rparr>],
                      groups := (groups w1)[g := (groups w1 ! g)\<lparr>grp_data := Some (length (frames w1))\<rparr>]\<rparr>)
                else (Inl (ValueError ''Length mismatch''), w1\<lparr>frames := frames w1 @ [m]\<rparr>))"
          if ex: "exps w1 = exps w" and gl: "grp_expList (groups w1 ! g) = ?es"
            and fr: "\<forall>r < length (frames w). frames w1 ! r = frames w ! r" for w1
        proof -
          have many1: "grp_expList (groups w1 ! g) = e0 # e1 # es'" using gl many by simp
          have ldl1: "\<forall>e \<in> set (e0 # e1 # es'). isLoaded (exps w1 ! e)" using ldl ex by simp
          have same: "\<forall>e \<in> set (e0 # e1 # es'). frames w1 ! the (exp_data (exps w1 ! e))
                                       = frames w ! the (exp_data (exps w ! e))"
          proof
            fix e assume e: "e \<in> set (e0 # e1 # es')"
            with refs [of e] ldl many obtain r where
              "exp_data (exps w ! e) = Some r" "r < length (frames w)" by auto
            with fr ex show "frames w1 ! the (exp_data (exps w1 ! e))
                                       = frames w ! the (exp_data (exps w ! e))" by simp
          qed
          show ?thesis
            unfolding Compose_many [OF many1 ldl1] merge_fold_again [OF same] R_def ..
        qed
        show ?thesis
        proof (cases R)
          case (Inl err)
          with cm have "Compose g w = (Inl err, w)" by simp
          then show ?thesis by (intro unchanged_twice) simp
        next
          case (Inr m)
          show ?thesis
          proof (cases "length (df_columns m) = Suc (Suc (Suc (length es')))")
            case True
            let ?d = "m\<lparr>df_columns := key_name # map exp_label [0 ..< Suc (Suc (length es'))]\<rparr>"
            let ?w1 = "w\<lparr>frames := frames w @ [?d],
                         groups := (groups w)[g := (groups w ! g)\<lparr>grp_data := Some (length (frames w))\<rparr>]\<rparr>"
            have c1: "Compose g w = (Inr (), ?w1)" using cm Inr True by simp
            have "Compose g ?w1 = (Inr (), ?w1\<lparr>frames := frames ?w1 @ [?d],
                      groups := (groups ?w1)[g := (groups ?w1 ! g)\<lparr>grp_data := Some (length (frames ?w1))\<rparr>]\<rparr>)"
              using again [of ?w1] Inr True g by (simp add: nth_append)
            then have c2: "fst (Compose g ?w1) = Inr ()"
              and g2: "getData g (snd (Compose g ?w1)) = Some ?d"
              using g by (simp_all add: getData_def nth_append)
            have g1: "getData g ?w1 = Some ?d" using g by (simp add: getData_def)
            show ?thesis unfolding c1 snd_conv fst_conv using c2 g1 g2 by simp
          next
            case False
            let ?w1 = "w\<lparr>frames := frames w @ [m]\<rparr>"
            have c1: "Compose g w = (Inl (ValueError ''Length mismatch''), ?w1)"
              using cm Inr False by simp
            have c2: "Compose g ?w1 = (Inl (ValueError ''Length mismatch''), ?w1\<lparr>frames := frames ?w1 @ [m]\<rparr>)"
              using again [of ?w1] Inr False by (simp add: nth_append)
            have old: "\<forall>r. grp_data (groups w ! g) = Some r \<longrightarrow> r < length (frames w)"
              using wf g nth_mem [OF g] by (auto simp: wf_world_def)
            have g1: "getData g ?w1 = getData g w"
              using old by (cases "grp_data (groups w ! g)") (simp_all add: getData_def nth_append)
            have g2: "getData g (?w1\<lparr>frames := frames ?w1 @ [m]\<rparr>) = getData g w"
              using old by (cases "grp_data (groups w ! g)") (simp_all add: getData_def nth_append)
            show ?thesis unfolding c1 snd_conv fst_conv c2 g1 g2 by simp
          qed
        qed
      qed
    qed
  qed
  with third show ?thesis by blast
qed

theorem Compose_twice_witness:
  "fst (Compose 0 w_three) = Inr ()
   \<and> fst (Compose 0 (snd (Compose 0 w_three))) = Inr ()
   \<and> getData 0 (snd (Compose 0 (snd (Compose 0 w_three)))) = getData 0 (snd (Compose 0 w_three))
   \<and> getData 0 (snd (Compose 0 w_three))
       = Some \<lparr>df_columns = [''Wavelength'', ''Exp_0'', ''Exp_1'', ''Exp_2''],
               df_rows = [[Some 2, Some 20, Some 200, Some 2000],
                          [Some 3, Some 30, Some 300, Some 3000]]\<rparr>"
proof -
  have h: "wf_world w_three" "0 < length (groups w_three)"
    by (simp_all add: w_three_def wf_world_def ex_group_def ex_exp_def)
  have f: "fst (Compose 0 w_three) = Inr ()"
    by code_simp
  moreover have "getData 0 (snd (Compose 0 w_three))
       = Some \<lparr>df_columns = [''Wavelength'', ''Exp_0'', ''Exp_1'', ''Exp_2''],
               df_rows = [[Some 2, Some 20, Some 200, Some 2000],
                          [Some 3, Some 30, Some 300, Some 3000]]\<rparr>"
    by code_simp
  ultimately show ?thesis using Compose_twice [OF h] by simp
qed

subsection \<open>The hypotheses are kept by Compose and genStats\<close>

text \<open>
  The two hypotheses on states used above, \<open>wf_world\<close> and \<open>caches_composed\<close>, hold when
  no group has a cache yet, and \<^verbatim>\<open>Compose\<close> and \<^verbatim>\<open>genStats\<close> keep them, whether they
  return or raise.  First \<^verbatim>\<open>Compose\<close> is described by the states it can leave behind.
\<close>

lemma grp_setData_cases:
  assumes "grp_setData s r w = (res, w')"
  shows "w' = w \<or> w' = w\<lparr>groups := (groups w)[s := (groups w ! s)\<lparr>grp_data := Some r\<rparr>]\<rparr>"
  using assms by (auto simp: grp_setData_def split: if_splits)

lemma set_columns_cases:
  assumes "set_columns d names w = (res, w')"
  shows "(\<exists>err. res = Inl err \<and> w' = w)
       \<or> (\<exists>r. d = Some r \<and> res = Inr ()
              \<and> w' = w\<lparr>frames := (frames w)[r := (frames w ! r)\<lparr>df_columns := names\<rparr>]\<rparr>)"
  using assms by (auto simp: set_columns_def split: option.splits if_splits)

lemma Compose_chain:
  assumes "Compose s w = (res, w')"
  shows "w' = w
       \<or> (\<exists>r1 w1.
            reduce_merge (map (\<lambda>e. exp_data (exps w ! e)) (grp_expList (groups w ! s))) w = (r1, w1)
          \<and> ((\<exists>err. r1 = Inl err \<and> w' = w1)
             \<or> (\<exists>d r2 w2. r1 = Inr d
                   \<and> set_columns d (key_name # map exp_label [0 ..< length (grp_expList (groups w ! s))]) w1
                       = (r2, w2)
                   \<and> ((\<exists>err. r2 = Inl err \<and> w' = w2)
                      \<or> (r2 = Inr () \<and> grp_setData s (the d) w2 = (res, w'))))))"
  using assms
  by (auto simp: Compose_def Compose_internal_def split: option.splits sum.splits prod.splits)

lemma Compose_cases:
  assumes "Compose s w = (res, w')"
  shows "w' = w
       \<or> (\<exists>e r. grp_expList (groups w ! s) = [e] \<and> exp_data (exps w ! e) = Some r
             \<and> (w' = w\<lparr>frames := (frames w)[r := (frames w ! r)\<lparr>df_columns := [key_name, exp_label 0]\<rparr>]\<rparr>
                \<or> w' = w\<lparr>frames := (frames w)[r := (frames w ! r)\<lparr>df_columns := [key_name, exp_label 0]\<rparr>],
                          groups := (groups w)[s := (groups w ! s)\<lparr>grp_data := Some r\<rparr>]\<rparr>))
       \<or> (\<exists>f. w' = w\<lparr>frames := frames w @ [f]\<rparr>
              \<or> w' = w\<lparr>frames := frames w @ [f],
                        groups := (groups w)[s := (groups w ! s)\<lparr>grp_data := Some (length (frames w))\<rparr>]\<rparr>)"
proof -
  let ?ds = "map (\<lambda>e. exp_data (exps w ! e)) (grp_expList (groups w ! s))"
  let ?names = "key_name # map exp_label [0 ..< length (grp_expList (groups w ! s))]"
  from Compose_chain [OF assms] consider
      (unchanged) "w' = w"
    | (red) r1 w1 err where "reduce_merge ?ds w = (r1, w1)" "r1 = Inl err" "w' = w1"
    | (cols) r1 w1 d r2 w2 err where "reduce_merge ?ds w = (r1, w1)" "r1 = Inr d"
        "set_columns d ?names w1 = (r2, w2)" "r2 = Inl err" "w' = w2"
    | (fin) r1 w1 d r2 w2 where "reduce_merge ?ds w = (r1, w1)" "r1 = Inr d"
        "set_columns d ?names w1 = (r2, w2)" "r2 = Inr ()" "grp_setData s (the d) w2 = (res, w')"
    by blast
  then show ?thesis
  proof cases
    case unchanged
    then show ?thesis by simp
  next
    case red
    with reduce_merge_effect [OF red(1)] show ?thesis by auto
  next
    case cols
    from set_columns_cases [OF cols(3)] cols(4) have "w2 = w1" by auto
    with cols(5) reduce_merge_effect [OF cols(1)] show ?thesis by auto
  next
    case fin
    from set_columns_cases [OF fin(3)] fin(4) obtain r where
      r: "d = Some r" "w2 = w1\<lparr>frames := (frames w1)[r := (frames w1 ! r)\<lparr>df_columns := ?names\<rparr>]\<rparr>"
      by auto
    from reduce_merge_effect [OF fin(1)] fin(2) consider
        (same) "w1 = w" "?ds = [d]"
      | (new) f where "w1 = w\<lparr>frames := frames w @ [f]\<rparr>" "d = Some (length (frames w))"
      by auto
    then show ?thesis
    proof cases
      case same
      from same(2) obtain e where e: "grp_expList (groups w ! s) = [e]" "d = exp_data (exps w ! e)"
        by (cases "grp_expList (groups w ! s)") auto
      have nm: "?names = [key_name, exp_label 0]" using e(1) by simp
      from grp_setData_cases [OF fin(5)] r same(1) e show ?thesis
        unfolding nm by auto
    next
      case new
      from grp_setData_cases [OF fin(5)] r new show ?thesis by auto
    qed
  qed
qed

lemma wf_frames_update:
  assumes "wf_world w"
  shows "wf_world (w\<lparr>frames := (frames w)[r := f]\<rparr>)"
  using assms by (simp add: wf_world_def)

lemma wf_frames_append:
  assumes "wf_world w"
  shows "wf_world (w\<lparr>frames := frames w @ [f]\<rparr>)"
  using assms by (auto simp: wf_world_def less_Suc_eq)

lemma wf_group_update:
  assumes wf: "wf_world w" and s: "s < length (groups w)"
      and G: "grp_expList G = grp_expList (groups w ! s)"
      and d: "\<forall>r. grp_data G = Some r \<longrightarrow> r < length (frames w)"
      and t: "\<forall>r. grp_stats G = Some r \<longrightarrow> r < length (frames w)"
  shows "wf_world (w\<lparr>groups := (groups w)[s := G]\<rparr>)"
proof -
  have old: "groups w ! s \<in> set (groups w)" using s by (rule nth_mem)
  have sub: "set ((groups w)[s := G]) \<subseteq> insert G (set (groups w))"
    by (rule set_update_subset_insert)
  have "\<forall>H \<in> insert G (set (groups w)).
         (\<forall>e \<in> set (grp_expList H). e < length (exps w)) \<and>
         (\<forall>r. grp_data H = Some r \<longrightarrow> r < length (frames w)) \<and>
         (\<forall>r. grp_stats H = Some r \<longrightarrow> r < length (frames w))"
    using wf old G d t by (auto simp: wf_world_def)
  with sub have "\<forall>H \<in> set ((groups w)[s := G]).
         (\<forall>e \<in> set (grp_expList H). e < length (exps w)) \<and>
         (\<forall>r. grp_data H = Some r \<longrightarrow> r < length (frames w)) \<and>
         (\<forall>r. grp_stats H = Some r \<longrightarrow> r < length (frames w))"
    by blast
  with wf show ?thesis by (simp add: wf_world_def)
qed

lemma Compose_wf:
  assumes wf: "wf_world w" and s: "s < length (groups w)" and c: "Compose s w = (res, w')"
  shows "wf_world w'"
proof -
  have old: "groups w ! s \<in> set (groups w)" using s by (rule nth_mem)
  with wf have st: "\<forall>r. grp_stats (groups w ! s) = Some r \<longrightarrow> r < length (frames w)"
    by (simp add: wf_world_def)
  from Compose_cases [OF c] consider
      (a) "w' = w"
    | (b) e r where "grp_expList (groups w ! s) = [e]" "exp_data (exps w ! e) = Some r"
        "w' = w\<lparr>frames := (frames w)[r := (frames w ! r)\<lparr>df_columns := [key_name, exp_label 0]\<rparr>]\<rparr>
         \<or> w' = w\<lparr>frames := (frames w)[r := (frames w ! r)\<lparr>df_columns := [key_name, exp_label 0]\<rparr>],
                   groups := (groups w)[s := (groups w ! s)\<lparr>grp_data := Some r\<rparr>]\<rparr>"
    | (c) f where "w' = w\<lparr>frames := frames w @ [f]\<rparr>
         \<or> w' = w\<lparr>frames := frames w @ [f],
                   groups := (groups w)[s := (groups w ! s)\<lparr>grp_data := Some (length (frames w))\<rparr>]\<rparr>"
    by blast
  then show ?thesis
  proof cases
    case a with wf show ?thesis by simp
  next
    case b
    let ?v = "w\<lparr>frames := (frames w)[r := (frames w ! r)\<lparr>df_columns := [key_name, exp_label 0]\<rparr>]\<rparr>"
    have v: "wf_world ?v" using wf by (rule wf_frames_update)
    from wf s b(1) have "e < length (exps w)" by (auto intro: wf_world_exp)
    with wf b(2) have r: "r < length (frames w)" by (auto intro: wf_world_frame)
    have "wf_world (?v\<lparr>groups := (groups ?v)[s := (groups w ! s)\<lparr>grp_data := Some r\<rparr>]\<rparr>)"
      using v s r st by (intro wf_group_update) simp_all
    with v b(3) show ?thesis by auto
  next
    case c
    let ?v = "w\<lparr>frames := frames w @ [f]\<rparr>"
    have v: "wf_world ?v" using wf by (rule wf_frames_append)
    have "wf_world (?v\<lparr>groups := (groups ?v)[s := (groups w ! s)\<lparr>grp_data := Some (length (frames w))\<rparr>]\<rparr>)"
      using v s st by (intro wf_group_update) (auto simp: less_Suc_eq)
    with v c show ?thesis by auto
  qed
qed

lemma Compose_caches_composed:
  assumes wf: "wf_world w" and s: "s < length (groups w)" and c: "Compose s w = (res, w')"
      and inv: "caches_composed q w"
  shows "caches_composed q w'"
proof -
  have fresh: "\<And>e r. e < length (exps w) \<Longrightarrow> exp_data (exps w ! e) = Some r \<Longrightarrow> r < length (frames w)"
    using wf by (rule wf_world_frame)
  from Compose_cases [OF c] consider
      (a) "w' = w"
    | (b) e r where "grp_expList (groups w ! s) = [e]" "exp_data (exps w ! e) = Some r"
        "w' = w\<lparr>frames := (frames w)[r := (frames w ! r)\<lparr>df_columns := [key_name, exp_label 0]\<rparr>]\<rparr>
         \<or> w' = w\<lparr>frames := (frames w)[r := (frames w ! r)\<lparr>df_columns := [key_name, exp_label 0]\<rparr>],
                   groups := (groups w)[s := (groups w ! s)\<lparr>grp_data := Some r\<rparr>]\<rparr>"
    | (c) f where "w' = w\<lparr>frames := frames w @ [f]\<rparr>
         \<or> w' = w\<lparr>frames := frames w @ [f],
                   groups := (groups w)[s := (groups w ! s)\<lparr>grp_data := Some (length (frames w))\<rparr>]\<rparr>"
    by blast
  then show ?thesis
  proof cases
    case a with inv show ?thesis by simp
  next
    case b
    from wf s b(1) have "e < length (exps w)" by (auto intro: wf_world_exp)
    from fresh [OF this b(2)] have r: "r < length (frames w)" .
    have ex: "exps w' = exps w" using b(3) by auto
    have fr: "\<And>r'. frames w' ! r' = (if r' = r then (frames w ! r)\<lparr>df_columns := [key_name, exp_label 0]\<rparr>
                                       else frames w ! r')"
      using b(3) r by (auto simp: nth_list_update)
    have gr: "\<And>x. grp_data (groups w' ! q) = Some x \<or> grp_stats (groups w' ! q) = Some x \<Longrightarrow>
        x = r \<or> grp_data (groups w ! q) = Some x \<or> grp_stats (groups w ! q) = Some x"
      using b(3) s by (cases "q = s") (auto simp: nth_list_update)
    show ?thesis
      unfolding caches_composed_def ex
    proof (intro allI impI)
      fix e' x assume e': "e' < length (exps w)"
        and h: "exp_data (exps w ! e') = Some x \<and>
                (grp_data (groups w' ! q) = Some x \<or> grp_stats (groups w' ! q) = Some x)"
      show "df_columns (frames w' ! x) = [key_name, exp_label 0]"
      proof (cases "x = r")
        case True then show ?thesis by (simp add: fr)
      next
        case False
        with gr h have "grp_data (groups w ! q) = Some x \<or> grp_stats (groups w ! q) = Some x"
          by blast
        with inv e' h have "df_columns (frames w ! x) = [key_name, exp_label 0]"
          by (auto simp: caches_composed_def)
        with False show ?thesis by (simp add: fr)
      qed
    qed
  next
    case c
    have ex: "exps w' = exps w" using c by auto
    have fr: "\<And>r'. r' < length (frames w) \<Longrightarrow> frames w' ! r' = frames w ! r'"
      using c by (auto simp: nth_append)
    have gr: "\<And>x. grp_data (groups w' ! q) = Some x \<or> grp_stats (groups w' ! q) = Some x \<Longrightarrow>
        x = length (frames w) \<or> grp_data (groups w ! q) = Some x \<or> grp_stats (groups w ! q) = Some x"
      using c s by (cases "q = s") (auto simp: nth_list_update)
    show ?thesis
      unfolding caches_composed_def ex
    proof (intro allI impI)
      fix e' x assume e': "e' < length (exps w)"
        and h: "exp_data (exps w ! e') = Some x \<and>
                (grp_data (groups w' ! q) = Some x \<or> grp_stats (groups w' ! q) = Some x)"
      from e' h have x: "x < length (frames w)" by (auto intro: fresh)
      with gr h have "grp_data (groups w ! q) = Some x \<or> grp_stats (groups w ! q) = Some x"
        by blast
      with inv e' h have "df_columns (frames w ! x) = [key_name, exp_label 0]"
        by (auto simp: caches_composed_def)
      with x show "df_columns (frames w' ! x) = [key_name, exp_label 0]" by (simp add: fr)
    qed
  qed
qed

lemma stats_step_keeps:
  assumes wf: "wf_world v" and s: "s < length (groups v)"
      and v'_def: "v' = v\<lparr>frames := frames v @ [f],
                    groups := (groups v)[s := (groups v ! s)\<lparr>grp_stats := Some (length (frames v))\<rparr>]\<rparr>"
  shows "wf_world v'" and "caches_composed q v \<Longrightarrow> caches_composed q v'"
proof -
  let ?u = "v\<lparr>frames := frames v @ [f]\<rparr>"
  have u: "wf_world ?u" using wf by (rule wf_frames_append)
  have old: "groups v ! s \<in> set (groups v)" using s by (rule nth_mem)
  with wf have dt: "\<forall>r. grp_data (groups v ! s) = Some r \<longrightarrow> r < length (frames v)"
    by (simp add: wf_world_def)
  have "wf_world (?u\<lparr>groups := (groups ?u)[s := (groups v ! s)\<lparr>grp_stats := Some (length (frames v))\<rparr>]\<rparr>)"
    using u s dt by (intro wf_group_update) (auto simp: less_Suc_eq)
  then show "wf_world v'" by (simp add: v'_def)
  assume inv: "caches_composed q v"
  have fresh: "\<And>e r. e < length (exps v) \<Longrightarrow> exp_data (exps v ! e) = Some r \<Longrightarrow> r < length (frames v)"
    using wf by (rule wf_world_frame)
  have gr: "\<And>x. grp_data (groups v' ! q) = Some x \<or> grp_stats (groups v' ! q) = Some x \<Longrightarrow>
      x = length (frames v) \<or> grp_data (groups v ! q) = Some x \<or> grp_stats (groups v ! q) = Some x"
    using s by (cases "q = s") (auto simp: v'_def nth_list_update)
  show "caches_composed q v'"
    unfolding caches_composed_def
  proof (intro allI impI)
    fix e' x assume e': "e' < length (exps v')"
      and h: "exp_data (exps v' ! e') = Some x \<and>
              (grp_data (groups v' ! q) = Some x \<or> grp_stats (groups v' ! q) = Some x)"
    from e' have e: "e' < length (exps v)" by (simp add: v'_def)
    from h have hx: "exp_data (exps v ! e') = Some x" by (simp add: v'_def)
    from fresh [OF e hx] have x: "x < length (frames v)" .
    with gr h have "grp_data (groups v ! q) = Some x \<or> grp_stats (groups v ! q) = Some x"
      by blast
    with inv e hx have "df_columns (frames v ! x) = [key_name, exp_label 0]"
      by (auto simp: caches_composed_def)
    with x show "df_columns (frames v' ! x) = [key_name, exp_label 0]"
      by (simp add: v'_def nth_append)
  qed
qed

lemma genStats_keeps:
  assumes wf: "wf_world w" and s: "s < length (groups w)" and gs: "genStats s w = (res, w')"
  shows "wf_world w' \<and> (caches_composed q w \<longrightarrow> caches_composed q w')"
proof -
  from genStats_steps [OF gs] obtain r1 w1 where
    w1: "w1 = w \<or> Compose s w = (r1, w1)"
    and w': "w' = w1 \<or> (\<exists>f. w' = w1\<lparr>frames := frames w1 @ [f],
                            groups := (groups w1)[s := (groups w1 ! s)
                                        \<lparr>grp_stats := Some (length (frames w1))\<rparr>]\<rparr>)"
    by blast
  have k1: "wf_world w1 \<and> s < length (groups w1) \<and> (caches_composed q w \<longrightarrow> caches_composed q w1)"
    using w1
  proof
    assume "w1 = w" with wf s show ?thesis by simp
  next
    assume c: "Compose s w = (r1, w1)"
    from Compose_wf [OF wf s c] Compose_caches_composed [OF wf s c] Compose_effect [OF c] s
    show ?thesis by simp
  qed
  from w' show ?thesis
  proof
    assume "w' = w1" with k1 show ?thesis by simp
  next
    assume "\<exists>f. w' = w1\<lparr>frames := frames w1 @ [f],
                            groups := (groups w1)[s := (groups w1 ! s)
                                        \<lparr>grp_stats := Some (length (frames w1))\<rparr>]\<rparr>"
    then obtain f where f: "w' = w1\<lparr>frames := frames w1 @ [f],
                            groups := (groups w1)[s := (groups w1 ! s)
                                        \<lparr>grp_stats := Some (length (frames w1))\<rparr>]\<rparr>"
      by blast
    from k1 have a: "wf_world w1" and b: "s < length (groups w1)" by simp_all
    from stats_step_keeps [OF a b f] k1 show ?thesis by blast
  qed
qed


end
